theory Spec2Isabelle
  imports Complex_Main "HOL-Library.AList"
begin

section \<open>Errors\<close>

text \<open>
  Every exception the orchestration code of \<^verbatim>\<open>colorconverter.py\<close> can raise is a value.
  \<open>ValueError\<close> carries the message of the \<^verbatim>\<open>raise\<close>; \<open>SystemExit\<close> carries the exit status of
  \<^verbatim>\<open>sys.exit\<close>.
\<close>

datatype error =
    ValueError string
  | KeyError
  | TypeError
  | NameError
  | SystemExit int

section \<open>Command line arguments and the input model\<close>

text \<open>
  The namespace returned by \<^verbatim>\<open>parser.parse_args()\<close>. An option that was not given is
  \<open>None\<close>, as argparse leaves it. \<open>cat\<close> is \<open>None\<close> after \<^verbatim>\<open>--cat None\<close> (the action
  \<^verbatim>\<open>SetToNone\<close>). A float given on the command line is kept as the real number it stands
  for; the input model depends only on which options are present.
\<close>

record args =
  show_warnings :: bool
  bitdepth :: string
  precalc :: string
  observer :: string
  input_illuminant :: string
  cat :: "string list option"
  illuminant_list :: string
  plotpath :: "string option"
  lstar :: "real option"
  astar :: "real option"
  bstar :: "real option"
  lchab_l_val :: "real option"
  lchab_ch_val :: "real option"
  lchab_ab_val :: "real option"
  l_val :: "real option"
  u_val :: "real option"
  v_val :: "real option"
  lchuv_l_val :: "real option"
  lchuv_ch_val :: "real option"
  lchuv_uv_val :: "real option"
  x_val :: "real option"
  y_val :: "real option"
  z_val :: "real option"
  red :: "real option"
  green :: "real option"
  blue :: "real option"
  input_colorspace :: string
  start :: "int option"
  stop :: "int option"
  interval :: "int option"
  spectype :: "string option"
  data :: "real list option"
  intrpl_intrvl :: "int option"
  tm30path :: "string option"
  tm30format :: "string option"
  wave :: "real option"

datatype color_model =
  CIELAB | CIELCHab | CIELUV | CIELCHuv | CIEXYZ | RGB | Spectrum | Wavelength

text \<open>\<^verbatim>\<open>determine_color_model(args)\<close>: the first complete group of values, in the order of the
  \<^verbatim>\<open>if\<close> statements; \<open>None\<close> when there is none.\<close>

definition determine_color_model :: "args \<Rightarrow> color_model option" where
  "determine_color_model a =
    (if lstar a \<noteq> None \<and> astar a \<noteq> None \<and> bstar a \<noteq> None then Some CIELAB
     else if lchab_l_val a \<noteq> None \<and> lchab_ch_val a \<noteq> None \<and> lchab_ab_val a \<noteq> None
       then Some CIELCHab
     else if l_val a \<noteq> None \<and> u_val a \<noteq> None \<and> v_val a \<noteq> None then Some CIELUV
     else if lchuv_l_val a \<noteq> None \<and> lchuv_ch_val a \<noteq> None \<and> lchuv_uv_val a \<noteq> None
       then Some CIELCHuv
     else if x_val a \<noteq> None \<and> y_val a \<noteq> None \<and> z_val a \<noteq> None then Some CIEXYZ
     else if red a \<noteq> None \<and> green a \<noteq> None \<and> blue a \<noteq> None then Some RGB
     else if start a \<noteq> None \<and> stop a \<noteq> None \<and> interval a \<noteq> None \<and> data a \<noteq> None
       then Some Spectrum
     else if wave a \<noteq> None then Some Wavelength
     else None)"

text \<open>\<^verbatim>\<open>args.plotpath[-4:] != ".svg"\<close>: the last four characters (the whole string when it is
  shorter).\<close>

definition last4 :: "string \<Rightarrow> string" where
  "last4 s = drop (length s - 4) s"

text \<open>
  The part of \<^verbatim>\<open>parse_arguments()\<close> after \<^verbatim>\<open>parser.parse_args()\<close>, on the parsed namespace:
  the plot path gets its extension, the model is determined, and
  \<^verbatim>\<open>parser.error(...)\<close> (\<^verbatim>\<open>MyParser.error\<close>: print the help, write the message to stderr,
  \<^verbatim>\<open>sys.exit(2)\<close>) ends the program when there is no model.
\<close>

definition parse_arguments :: "args \<Rightarrow> error + (args \<times> color_model)" where
  "parse_arguments a =
    (let a' = (case plotpath a of
                 None \<Rightarrow> a
               | Some p \<Rightarrow> if last4 p \<noteq> ''.svg'' then a\<lparr>plotpath := Some (p @ ''.svg'')\<rparr> else a)
     in case determine_color_model a' of
          None \<Rightarrow> Inl (SystemExit 2)
        | Some m \<Rightarrow> Inr (a', m))"

text \<open>
  The specification's reading of the same decision: the eight input models in their
  priority order, and what a complete set of values is for each.
\<close>

definition input_models_in_priority_order :: "color_model list" where
  "input_models_in_priority_order =
    [CIELAB, CIELCHab, CIELUV, CIELCHuv, CIEXYZ, RGB, Spectrum, Wavelength]"

fun complete_value_set :: "args \<Rightarrow> color_model \<Rightarrow> bool" where
  "complete_value_set a CIELAB = (lstar a \<noteq> None \<and> astar a \<noteq> None \<and> bstar a \<noteq> None)"
| "complete_value_set a CIELCHab =
     (lchab_l_val a \<noteq> None \<and> lchab_ch_val a \<noteq> None \<and> lchab_ab_val a \<noteq> None)"
| "complete_value_set a CIELUV = (l_val a \<noteq> None \<and> u_val a \<noteq> None \<and> v_val a \<noteq> None)"
| "complete_value_set a CIELCHuv =
     (lchuv_l_val a \<noteq> None \<and> lchuv_ch_val a \<noteq> None \<and> lchuv_uv_val a \<noteq> None)"
| "complete_value_set a CIEXYZ = (x_val a \<noteq> None \<and> y_val a \<noteq> None \<and> z_val a \<noteq> None)"
| "complete_value_set a RGB = (red a \<noteq> None \<and> green a \<noteq> None \<and> blue a \<noteq> None)"
| "complete_value_set a Spectrum =
     (start a \<noteq> None \<and> stop a \<noteq> None \<and> interval a \<noteq> None \<and> data a \<noteq> None)"
| "complete_value_set a Wavelength = (wave a \<noteq> None)"

text \<open>A namespace with no input value at all, and with the defaults of the parser.\<close>

definition default_args :: args where
  "default_args = \<lparr>
     show_warnings = False, bitdepth = ''8'', precalc = '''',
     observer = ''CIE 1931 2 Degree Standard Observer'', input_illuminant = ''D65'',
     cat = Some [''Bianco 2010'', ''Bianco PC 2010'', ''Bradford'', ''CAT02'',
       ''CAT02 Brill 2008'', ''CAT16'', ''CMCCAT97'', ''CMCCAT2000'', ''Fairchild'', ''Sharp'',
       ''Von Kries'', ''XYZ Scaling''],
     illuminant_list = ''All'', plotpath = None,
     lstar = None, astar = None, bstar = None,
     lchab_l_val = None, lchab_ch_val = None, lchab_ab_val = None,
     l_val = None, u_val = None, v_val = None,
     lchuv_l_val = None, lchuv_ch_val = None, lchuv_uv_val = None,
     x_val = None, y_val = None, z_val = None,
     red = None, green = None, blue = None, input_colorspace = ''sRGB'',
     start = None, stop = None, interval = None, spectype = None, data = None,
     intrpl_intrvl = None, tm30path = None, tm30format = None, wave = None \<rparr>"

section \<open>Binary64 floating point\<close>

text \<open>
  Python's and NumPy's floats are IEEE 754 binary64 numbers: a finite value, an infinity
  or NaN. A finite value is the real number it stands for; the sign of a zero is not
  modelled. An arithmetic operation gives the exact result rounded to the nearest binary64
  value, a tie to the one with an even significand, and an infinity when the rounded
  result is beyond the largest finite value.
\<close>

datatype float64 = Finite real | PosInf | NegInf | NaN

text \<open>\<^verbatim>\<open>rint\<close>: the nearest integer, a tie to the even one.\<close>

definition rint :: "real \<Rightarrow> int" where
  "rint x = (let f = \<lfloor>x\<rfloor> in
              if x - of_int f < 1 / 2 then f
              else if 1 / 2 < x - of_int f then f + 1
              else if even f then f else f + 1)"

definition pow2 :: "int \<Rightarrow> real" where
  "pow2 k = (if 0 \<le> k then 2 ^ nat k else 1 / 2 ^ nat (- k))"

text \<open>
  The exponent \<open>e\<close> with \<open>2 ^ e \<le> x < 2 ^ (e + 1)\<close> of a positive \<open>x\<close>, found by halving or
  doubling; the first argument bounds the number of steps, and 2200 steps reach every
  product and quotient of two binary64 values.
\<close>

fun binary_exponent :: "nat \<Rightarrow> real \<Rightarrow> int" where
  "binary_exponent 0 x = 0"
| "binary_exponent (Suc n) x =
     (if 2 \<le> x then binary_exponent n (x / 2) + 1
      else if x < 1 then binary_exponent n (x * 2) - 1
      else 0)"

text \<open>
  Rounding to 53 significant bits, with the spacing of the subnormal numbers below
  \<open>2 ^ (- 1022)\<close>.
\<close>

definition round_to_binary64 :: "real \<Rightarrow> real" where
  "round_to_binary64 x =
    (if x = 0 then 0
     else (let e = max (binary_exponent 2200 \<bar>x\<bar>) (- 1022);
               u = pow2 (e - 52)
           in of_int (rint (x / u)) * u))"





text \<open>\<^verbatim>\<open>x < y\<close> on floats: every comparison with NaN is false.\<close>

fun flt :: "float64 \<Rightarrow> float64 \<Rightarrow> bool" where
  "flt (Finite a) (Finite b) = (a < b)"
| "flt NaN y = False"
| "flt x NaN = False"
| "flt NegInf NegInf = False"
| "flt NegInf y = True"
| "flt x NegInf = False"
| "flt PosInf y = False"
| "flt x PosInf = True"

text \<open>A float that lies in the interval from 0 to 1; NaN and the infinities do not.\<close>

definition within_0_1 :: "float64 \<Rightarrow> bool" where
  "within_0_1 x = (case x of Finite r \<Rightarrow> 0 \<le> r \<and> r \<le> 1 | _ \<Rightarrow> False)"

text \<open>\<^verbatim>\<open>str(n)\<close> of a natural number and of an integer, for the messages that format
  one.\<close>

definition digit :: "nat \<Rightarrow> char" where
  "digit d = ''0123456789'' ! d"

fun decimal :: "nat \<Rightarrow> string" where
  "decimal n = (if n < 10 then [digit n] else decimal (n div 10) @ [digit (n mod 10)])"

declare decimal.simps [simp del]

definition str_int :: "int \<Rightarrow> string" where
  "str_int i = (if i < 0 then CHR ''-'' # decimal (nat (- i)) else decimal (nat i))"

section \<open>Range checks\<close>

text \<open>\<^verbatim>\<open>BITDEPTH_FACTOR = {"8": 255, "15+1": 32768, "16": 65535, "32": 1}\<close>\<close>

definition BITDEPTH_FACTOR :: "string \<rightharpoonup> real" where
  "BITDEPTH_FACTOR = [''8'' \<mapsto> 255, ''15+1'' \<mapsto> 32768, ''16'' \<mapsto> 65535, ''32'' \<mapsto> 1]"

text \<open>\<^verbatim>\<open>validate_rgb_values(bitdepth, red, green, blue)\<close>\<close>

definition validate_rgb_values ::
  "string \<Rightarrow> real \<Rightarrow> real \<Rightarrow> real \<Rightarrow> error + (real \<times> real \<times> real \<times> real)" where
  "validate_rgb_values bd r g b =
    (case BITDEPTH_FACTOR bd of
       None \<Rightarrow> Inl (ValueError (''Invalid bit depth specified: '' @ bd))
     | Some max_val \<Rightarrow>
         if \<not> (0 \<le> r \<and> r \<le> max_val \<and> 0 \<le> g \<and> g \<le> max_val \<and> 0 \<le> b \<and> b \<le> max_val)
         then Inl (ValueError
                (''RGB values are out of range for the specified bit depth: '' @ bd))
         else Inr (r, g, b, max_val))"

text \<open>
  \<^verbatim>\<open>CIELAB_DEPTH_VALUES\<close>, the ranges of \<open>L\<close> and of \<open>a\<close>, \<open>b\<close> for each bit depth, and
  \<^verbatim>\<open>validate_cielab_values(bitdepth, lstar, astar, bstar)\<close>, which takes its ranges from it.
\<close>

definition CIELAB_DEPTH_VALUES :: "string \<rightharpoonup> ((real \<times> real) \<times> (real \<times> real))" where
  "CIELAB_DEPTH_VALUES =
     [''8'' \<mapsto> ((0, 100), (- 200, 200)),
      ''15+1'' \<mapsto> ((0, 32768), (- 25600, 25600)),
      ''16'' \<mapsto> ((0, 65535), (- 51200, 51200)),
      ''32'' \<mapsto> ((0, 1), (- 1, 1))]"

definition validate_cielab_values ::
  "string \<Rightarrow> real \<Rightarrow> real \<Rightarrow> real \<Rightarrow> error + (real \<times> real \<times> real \<times> real)" where
  "validate_cielab_values bd l a b =
    (case CIELAB_DEPTH_VALUES bd of
       None \<Rightarrow> Inl (ValueError (''Invalid bit depth specified: '' @ bd))
     | Some ((min_val_lstar, max_val_lstar), (min_val_a_b_star, max_val_a_b_star)) \<Rightarrow>
         if \<not> (min_val_lstar \<le> l \<and> l \<le> max_val_lstar
               \<and> min_val_a_b_star \<le> a \<and> a \<le> max_val_a_b_star
               \<and> min_val_a_b_star \<le> b \<and> b \<le> max_val_a_b_star)
         then Inl (ValueError
                (''CIELAB values are out of range for the specified bit depth: '' @ bd))
         else (case BITDEPTH_FACTOR bd of
                 None \<Rightarrow> Inl KeyError
               | Some f \<Rightarrow> Inr (l, a, b, f)))"

text \<open>
  \<^verbatim>\<open>validate_cielchab_values\<close>: the loop
  \<^verbatim>\<open>for val_name, (min_val, max_val) in value_ranges.items()\<close> over the dictionary of
  ranges, in its insertion order, looking each value up in \<^verbatim>\<open>values\<close>.
\<close>

fun check_value_ranges :: "(string \<times> real \<times> real) list \<Rightarrow> (string \<rightharpoonup> real) \<Rightarrow> error option" where
  "check_value_ranges [] values = None"
| "check_value_ranges ((val_name, min_val, max_val) # rest) values =
    (case values val_name of
       None \<Rightarrow> Some KeyError
     | Some v \<Rightarrow>
         if \<not> (min_val \<le> v \<and> v \<le> max_val)
         then Some (ValueError (val_name @ '' is out of range''))
         else check_value_ranges rest values)"

definition validate_cielchab_values ::
  "string \<Rightarrow> real \<Rightarrow> real \<Rightarrow> real \<Rightarrow> error + (real \<times> real \<times> real \<times> real)" where
  "validate_cielchab_values bd lchab_l lchab_ch lchab_ab =
    (case BITDEPTH_FACTOR bd of
       None \<Rightarrow> Inl (ValueError (''Invalid bit depth specified: '' @ bd))
     | Some factor \<Rightarrow>
         (let value_ranges = [(''lchab_l_val'', 0, 100), (''lchab_ch_val'', 0, 230),
                              (''lchab_ab_val'', 0, 360)];
              values = [''lchab_l_val'' \<mapsto> lchab_l, ''lchab_ch_val'' \<mapsto> lchab_ch,
                        ''lchab_ab_val'' \<mapsto> lchab_ab]
          in case check_value_ranges value_ranges values of
               Some e \<Rightarrow> Inl e
             | None \<Rightarrow> Inr (lchab_l, lchab_ch, lchab_ab, factor)))"

text \<open>A call is accepted when it returns, rejected when it raises.\<close>

definition accepted :: "error + 'a \<Rightarrow> bool" where
  "accepted r = (case r of Inl e \<Rightarrow> False | Inr v \<Rightarrow> True)"

text \<open>
  \<^verbatim>\<open>int(x)\<close> on a float truncates towards zero, and \<^verbatim>\<open>a / b\<close> on two integers is the
  float nearest to the exact quotient. (The division is reached with an interval of at
  least 1 only.)
\<close>

definition py_int :: "real \<Rightarrow> int" where
  "py_int x = (if 0 \<le> x then \<lfloor>x\<rfloor> else \<lceil>x\<rceil>)"

definition true_divide :: "int \<Rightarrow> int \<Rightarrow> real" where
  "true_divide a b = round_to_binary64 (real_of_int a / real_of_int b)"

text \<open>
  \<^verbatim>\<open>validate_spectrum_values(start, stop, interval, data)\<close>: start, stop and interval are the
  integers of \<^verbatim>\<open>type=int\<close>, the data are the floats of \<^verbatim>\<open>type=float\<close>, which reads \<^verbatim>\<open>nan\<close>
  and \<^verbatim>\<open>inf\<close> too. The last check is \<^verbatim>\<open>np.any(data < 0) or np.any(data > 1)\<close>.
\<close>

definition validate_spectrum_values ::
  "int \<Rightarrow> int \<Rightarrow> int \<Rightarrow> float64 list \<Rightarrow> error + (int \<times> int \<times> int \<times> float64 list)" where
  "validate_spectrum_values start_v stop_v interval_v data_v =
    (let max_val_start = 750; min_val_start = 380;
         max_val_stop = 780; min_val_stop = 400;
         max_val_interval = 20; min_val_interval = 1
     in if \<not> (min_val_start \<le> start_v \<and> start_v \<le> max_val_start
              \<and> min_val_stop \<le> stop_v \<and> stop_v \<le> max_val_stop
              \<and> min_val_interval \<le> interval_v \<and> interval_v \<le> max_val_interval)
        then Inl (ValueError ''Spectral parameters are out of range'')
        else if stop_v \<le> start_v
        then Inl (ValueError ''Stop value should be greater than start value'')
        else (let expected_data_length = py_int (true_divide (stop_v - start_v) interval_v) + 1
              in if int (length data_v) \<noteq> expected_data_length
                 then Inl (ValueError
                        (''Data length mismatch. Expected '' @ str_int expected_data_length
                         @ '' values but got '' @ decimal (length data_v) @ '' values.''))
                 else if list_ex (\<lambda>x. flt x (Finite 0)) data_v
                         \<or> list_ex (\<lambda>x. flt (Finite 1) x) data_v
                 then Inl (ValueError ''Spectral data values are out of 0-1 range'')
                 else Inr (start_v, stop_v, interval_v, data_v)))"

text \<open>
  The specification's condition for a rejection, in its own words; a data value lies
  outside the interval when it is not within it.
\<close>

definition spectrum_rejected :: "int \<Rightarrow> int \<Rightarrow> int \<Rightarrow> float64 list \<Rightarrow> bool" where
  "spectrum_rejected start_v stop_v interval_v data_v =
    (start_v < 380 \<or> 750 < start_v \<or> stop_v < 400 \<or> 780 < stop_v
     \<or> interval_v < 1 \<or> 20 < interval_v \<or> stop_v \<le> start_v
     \<or> int (length data_v) \<noteq> py_int (true_divide (stop_v - start_v) interval_v) + 1
     \<or> list_ex (\<lambda>x. \<not> within_0_1 x) data_v)"

section \<open>Normalisation\<close>





section \<open>Values and the result dictionary\<close>

text \<open>
  The Python values the program stores. A dictionary is an association list in insertion
  order; its keys are the hashable scalars. (Python identifies the keys \<open>True\<close>, \<open>1\<close> and
  \<open>1.0\<close>; the program never mixes them, and the model keeps them apart.) \<open>NpInt\<close>, \<open>NpFloat\<close>
  and \<open>NdArray\<close> are NumPy's integer and floating scalars and its arrays.
\<close>

datatype key = KNone | KBool bool | KInt int | KFloat real | KStr string

datatype pyval =
    PNone
  | PBool bool
  | PInt int
  | PFloat real
  | PStr string
  | NpInt int
  | NpFloat real
  | PList "pyval list"
  | NdArray "pyval list"
  | PDict "(key \<times> pyval) list"

type_synonym dict = "(key \<times> pyval) list"

text \<open>The key a value makes; lists, arrays and dictionaries are unhashable.\<close>

fun as_key :: "pyval \<Rightarrow> key option" where
  "as_key PNone = Some KNone"
| "as_key (PBool b) = Some (KBool b)"
| "as_key (PInt i) = Some (KInt i)"
| "as_key (PFloat x) = Some (KFloat x)"
| "as_key (PStr s) = Some (KStr s)"
| "as_key (NpInt i) = Some (KInt i)"
| "as_key (NpFloat x) = Some (KFloat x)"
| "as_key (PList xs) = None"
| "as_key (NdArray xs) = None"
| "as_key (PDict d) = None"

text \<open>
  An \<^verbatim>\<open>illuminant\<close> or \<^verbatim>\<open>observer\<close> argument of \<^verbatim>\<open>result\<close>: the default \<^verbatim>\<open>False\<close> or a
  string. \<open>truthy\<close> is the test \<^verbatim>\<open>if observer:\<close>; \<open>arg_key\<close> is the argument as a key.
\<close>

datatype arg = AFalse | AStr string

fun truthy :: "arg \<Rightarrow> bool" where
  "truthy AFalse = False"
| "truthy (AStr s) = (s \<noteq> [])"

fun arg_key :: "arg \<Rightarrow> key" where
  "arg_key AFalse = KBool False"
| "arg_key (AStr s) = KStr s"

text \<open>\<^verbatim>\<open>k in d\<close> and \<^verbatim>\<open>d[k] = v\<close> on a dictionary (an existing key keeps its position).\<close>

definition contains :: "dict \<Rightarrow> key \<Rightarrow> bool" where
  "contains d k = (map_of d k \<noteq> None)"

definition setitem :: "dict \<Rightarrow> key \<Rightarrow> pyval \<Rightarrow> dict" where
  "setitem d k v = AList.update k v d"

text \<open>
  \<^verbatim>\<open>for x in v\<close>: the elements of a list or an array, the characters of a string, the keys
  of a dictionary; other values are not iterable.
\<close>

fun key_val :: "key \<Rightarrow> pyval" where
  "key_val KNone = PNone"
| "key_val (KBool b) = PBool b"
| "key_val (KInt i) = PInt i"
| "key_val (KFloat x) = PFloat x"
| "key_val (KStr s) = PStr s"

fun iterate :: "pyval \<Rightarrow> pyval list option" where
  "iterate (PList xs) = Some xs"
| "iterate (NdArray xs) = Some xs"
| "iterate (PStr s) = Some (map (\<lambda>c. PStr [c]) s)"
| "iterate (PDict d) = Some (map (key_val \<circ> fst) d)"
| "iterate v = None"

text \<open>\<^verbatim>\<open>dict(zip(codes, value))\<close>: pairs up to the shorter length, a repeated key keeping its
  first position and its last value.\<close>

fun dict_zip :: "pyval list \<Rightarrow> pyval list \<Rightarrow> dict \<Rightarrow> error + dict" where
  "dict_zip (c # cs) (x # xs) d =
     (case as_key c of None \<Rightarrow> Inl TypeError | Some k \<Rightarrow> dict_zip cs xs (setitem d k x))"
| "dict_zip cs xs d = Inr d"

text \<open>
  Lines 4013 to 4016 of \<^verbatim>\<open>result\<close>, on the template \<^verbatim>\<open>res[model]\<close>:
  \<^verbatim>\<open>if "codes" in res[model]: ...\<close>. A value that is not a list or an array is wrapped in a
  list first.
\<close>

definition is_list_or_ndarray :: "pyval \<Rightarrow> bool" where
  "is_list_or_ndarray v = (case v of PList xs \<Rightarrow> True | NdArray xs \<Rightarrow> True | _ \<Rightarrow> False)"

definition pair_codes :: "dict \<Rightarrow> pyval \<Rightarrow> error + pyval" where
  "pair_codes template val =
    (case map_of template (KStr ''codes'') of
       None \<Rightarrow> Inr val
     | Some codes \<Rightarrow>
         (let val1 = (if \<not> is_list_or_ndarray val then PList [val] else val)
          in case (iterate codes, iterate val1) of
               (Some cs, Some xs) \<Rightarrow>
                 (case dict_zip cs xs [] of Inl e \<Rightarrow> Inl e | Inr d \<Rightarrow> Inr (PDict d))
             | _ \<Rightarrow> Inl TypeError))"

text \<open>
  Lines 4020 to 4039 of \<^verbatim>\<open>result\<close>, on the dictionary \<^verbatim>\<open>res[model]\<close>. Subscripting a
  value that is not a dictionary by one of these keys raises; the model raises \<open>TypeError\<close>
  there (Python raises \<open>IndexError\<close> on an array, and would index a list by \<^verbatim>\<open>False\<close>: no call
  of the program gives an observer without an illuminant).
\<close>

definition store :: "dict \<Rightarrow> arg \<Rightarrow> arg \<Rightarrow> string option \<Rightarrow> pyval \<Rightarrow> error + dict" where
  "store t ill obs ct val =
    (if truthy obs then
       (let t1 = (if \<not> contains t (arg_key obs) then setitem t (arg_key obs) (PDict []) else t)
        in case map_of t1 (arg_key obs) of
             Some (PDict od) \<Rightarrow>
               (let od1 = (if \<not> contains od (arg_key ill)
                           then setitem od (arg_key ill) (PDict []) else od)
                in case ct of
                     None \<Rightarrow> Inr (setitem t1 (arg_key obs) (PDict (setitem od1 (arg_key ill) val)))
                   | Some c \<Rightarrow>
                       (case map_of od1 (arg_key ill) of
                          Some (PDict cd) \<Rightarrow>
                            Inr (setitem t1 (arg_key obs)
                                  (PDict (setitem od1 (arg_key ill) (PDict (setitem cd (KStr c) val)))))
                        | _ \<Rightarrow> Inl TypeError))
           | _ \<Rightarrow> Inl TypeError)
     else if truthy ill then
       (let t1 = (if \<not> contains t (arg_key ill) then setitem t (arg_key ill) (PDict []) else t)
        in case ct of
             None \<Rightarrow> Inr (setitem t1 (arg_key ill) val)
           | Some c \<Rightarrow>
               (case map_of t1 (arg_key ill) of
                  Some (PDict cd) \<Rightarrow> Inr (setitem t1 (arg_key ill) (PDict (setitem cd (KStr c) val)))
                | _ \<Rightarrow> Inl TypeError))
     else Inr (setitem t (KStr ''None'') val))"

text \<open>
  The first half of \<^verbatim>\<open>result\<close>, lines 4005 to 4016: it gives the value to store.
  With \<^verbatim>\<open>use_space_separated\<close> true, \<^verbatim>\<open>isinstance(value)\<close> is called with one argument and
  raises \<open>TypeError\<close>. The lookup \<^verbatim>\<open>res[model]\<close> of line 4013 raises \<open>KeyError\<close> for a model
  that is not in \<^verbatim>\<open>res\<close>; a template that is not a dictionary raises at its first
  subscript.
\<close>

definition result_value :: "string \<Rightarrow> pyval \<Rightarrow> bool \<Rightarrow> bool \<Rightarrow> dict \<Rightarrow> error + pyval" where
  "result_value m val use_space_separated no_scientific_notation res =
    (if use_space_separated then Inl TypeError
     else case map_of res (KStr m) of
            None \<Rightarrow> Inl KeyError
          | Some (PDict t) \<Rightarrow> pair_codes t val
          | Some _ \<Rightarrow> Inl TypeError)"

text \<open>
  The second half, lines 4018 to 4039, with the value to store. The flag of the pair
  returned says whether the branch of line 4019, \<^verbatim>\<open>res[model] = {}\<close>, was taken.
\<close>

definition result_store ::
  "string \<Rightarrow> pyval \<Rightarrow> arg \<Rightarrow> arg \<Rightarrow> string option \<Rightarrow> dict \<Rightarrow> error + (dict \<times> bool)" where
  "result_store m val ill obs ct res =
    (let created = \<not> contains res (KStr m);
         res1 = (if created then setitem res (KStr m) (PDict []) else res)
     in case map_of res1 (KStr m) of
          Some (PDict t) \<Rightarrow>
            (case store t ill obs ct val of
               Inl e \<Rightarrow> Inl e
             | Inr t1 \<Rightarrow> Inr (setitem res1 (KStr m) (PDict t1), created))
        | _ \<Rightarrow> Inl TypeError)"

text \<open>\<^verbatim>\<open>result(model, value, illuminant, observer, cat, use_space_separated,
  no_scientific_notation)\<close> on the global \<^verbatim>\<open>res\<close>, returned updated.\<close>

definition result_traced ::
  "string \<Rightarrow> pyval \<Rightarrow> arg \<Rightarrow> arg \<Rightarrow> string option \<Rightarrow> bool \<Rightarrow> bool \<Rightarrow> dict
    \<Rightarrow> error + (dict \<times> bool)" where
  "result_traced m val ill obs ct use_space_separated no_scientific_notation res =
    (case result_value m val use_space_separated no_scientific_notation res of
       Inl e \<Rightarrow> Inl e
     | Inr val1 \<Rightarrow> result_store m val1 ill obs ct res)"

definition result ::
  "string \<Rightarrow> pyval \<Rightarrow> arg \<Rightarrow> arg \<Rightarrow> string option \<Rightarrow> bool \<Rightarrow> bool \<Rightarrow> dict \<Rightarrow> error + dict" where
  "result m val ill obs ct use_space_separated no_scientific_notation res =
    (case result_traced m val ill obs ct use_space_separated no_scientific_notation res of
       Inl e \<Rightarrow> Inl e
     | Inr (res1, created) \<Rightarrow> Inr res1)"

text \<open>
  The place the specification names for a stored value: the keys from \<^verbatim>\<open>res\<close> down to it,
  and the lookup along such a path.
\<close>

definition result_path :: "string \<Rightarrow> arg \<Rightarrow> arg \<Rightarrow> string option \<Rightarrow> key list" where
  "result_path m ill obs ct =
    (if truthy obs then
       [KStr m, arg_key obs, arg_key ill] @ (case ct of None \<Rightarrow> [] | Some c \<Rightarrow> [KStr c])
     else if truthy ill then
       [KStr m, arg_key ill] @ (case ct of None \<Rightarrow> [] | Some c \<Rightarrow> [KStr c])
     else [KStr m, KStr ''None''])"

fun lookup :: "pyval \<Rightarrow> key list \<Rightarrow> pyval option" where
  "lookup v [] = Some v"
| "lookup v (k # ks) =
     (case v of
        PDict d \<Rightarrow> (case map_of d k of None \<Rightarrow> None | Some w \<Rightarrow> lookup w ks)
      | _ \<Rightarrow> None)"

text \<open>
  The stored value as the specification words it: with a \<open>codes\<close> list in the template, the
  dictionary pairing the codes with the components of the value (the value itself being
  the one component when it is not a list or an array).
\<close>

definition components :: "pyval \<Rightarrow> pyval list" where
  "components val = (case val of PList xs \<Rightarrow> xs | NdArray xs \<Rightarrow> xs | _ \<Rightarrow> [val])"

definition paired_with_codes :: "string list \<Rightarrow> pyval \<Rightarrow> pyval" where
  "paired_with_codes codes val =
     PDict (fold (\<lambda>(c, x) d. setitem d (KStr c) x) (zip codes (components val)) [])"

text \<open>
  The states in which a store raises nothing: every slot on the way that must hold a
  dictionary is absent or holds one.
\<close>

fun as_dict :: "pyval \<Rightarrow> dict option" where
  "as_dict (PDict d) = Some d"
| "as_dict v = None"

definition free_slot :: "dict \<Rightarrow> key \<Rightarrow> bool" where
  "free_slot d k = (case map_of d k of None \<Rightarrow> True | Some v \<Rightarrow> as_dict v \<noteq> None)"

definition sub_dict :: "dict \<Rightarrow> key \<Rightarrow> dict" where
  "sub_dict d k = (case Option.bind (map_of d k) as_dict of Some x \<Rightarrow> x | None \<Rightarrow> [])"

definition storable :: "dict \<Rightarrow> arg \<Rightarrow> arg \<Rightarrow> string option \<Rightarrow> bool" where
  "storable t ill obs ct =
    (if truthy obs then
       free_slot t (arg_key obs)
       \<and> (ct = None \<or> free_slot (sub_dict t (arg_key obs)) (arg_key ill))
     else if truthy ill then (ct = None \<or> free_slot t (arg_key ill))
     else True)"

text \<open>A small result dictionary: one template with codes, one without.\<close>

definition res_example :: dict where
  "res_example =
    [(KStr ''cielab'', PDict [(KStr ''name'', PStr ''CIELAB''),
                              (KStr ''codes'', PList [PStr ''L'', PStr ''a'', PStr ''b''])]),
     (KStr ''pointer'', PDict [(KStr ''name'', PStr ''Pointer's Gamut'')])]"

section \<open>The fan-out over observers, illuminants and transforms\<close>

text \<open>The constant lists of the script.\<close>

definition RGB_ILLUMINANTS_LIST :: "string list" where
  "RGB_ILLUMINANTS_LIST =
     [''A'', ''C'', ''D50'', ''D55'', ''D65'', ''D75'', ''E'', ''FL1'', ''FL2'', ''FL3'',
      ''FL3.1'', ''FL3.2'', ''FL3.3'', ''FL3.4'', ''FL3.5'', ''FL3.6'', ''FL3.7'', ''FL3.8'',
      ''FL3.9'', ''FL3.10'', ''FL3.11'', ''FL3.12'', ''FL3.13'', ''FL3.14'', ''FL3.15'',
      ''FL4'', ''FL5'', ''FL6'', ''FL7'', ''FL8'', ''FL9'', ''FL10'', ''FL11'', ''FL12'',
      ''HP1'', ''HP2'', ''HP3'', ''HP4'', ''HP5'', ''ID50'', ''ID65'', ''LED-B1'', ''LED-B2'',
      ''LED-B3'', ''LED-B4'', ''LED-B5'', ''LED-BH1'', ''LED-RGB1'', ''LED-V1'', ''LED-V2'',
      ''ISO 7589 Sensitometric Daylight'', ''ISO 7589 Sensitometric Studio Tungsten'',
      ''ISO 7589 Sensitometric Photoflood'', ''ISO 7589 Sensitometric Printer'', ''ACES'',
      ''Blackmagic Wide Gamut'', ''DCI-P3'']"

definition CIE_ILLUMINANTS_LIST :: "string list" where
  "CIE_ILLUMINANTS_LIST =
     [''A'', ''D50'', ''D55'', ''D65'', ''D75'', ''FL1'', ''FL2'', ''FL3'', ''FL3.1'',
      ''FL3.2'', ''FL3.3'', ''FL3.4'', ''FL3.5'', ''FL3.6'', ''FL3.7'', ''FL3.8'', ''FL3.9'',
      ''FL3.10'', ''FL3.11'', ''FL3.12'', ''FL3.13'', ''FL3.14'', ''FL3.15'', ''FL4'', ''FL5'',
      ''FL6'', ''FL7'', ''FL8'', ''FL9'', ''FL10'', ''FL11'', ''FL12'', ''HP1'', ''HP2'',
      ''HP3'', ''HP4'', ''HP5'', ''ID50'', ''ID65'', ''LED-B1'', ''LED-B2'', ''LED-B3'',
      ''LED-B4'', ''LED-B5'', ''LED-BH1'', ''LED-RGB1'', ''LED-V1'', ''LED-V2'']"

definition ISO_7589_ILLUMINANTS_LIST :: "string list" where
  "ISO_7589_ILLUMINANTS_LIST =
     [''ISO 7589 Sensitometric Daylight'', ''ISO 7589 Sensitometric Studio Tungsten'',
      ''ISO 7589 Sensitometric Photoflood'', ''ISO 7589 Sensitometric Printer'']"

definition CHROMATIC_ADAPTATION_TRANSFORMS :: "string list" where
  "CHROMATIC_ADAPTATION_TRANSFORMS =
     [''Bianco 2010'', ''Bianco PC 2010'', ''Bradford'', ''CAT02'', ''CAT02 Brill 2008'',
      ''CAT16'', ''CMCCAT97'', ''CMCCAT2000'', ''Fairchild'', ''Sharp'', ''Von Kries'',
      ''XYZ Scaling'']"

definition STANDARD_OBSERVERS :: "string list" where
  "STANDARD_OBSERVERS =
     [''CIE 1931 2 Degree Standard Observer'', ''CIE 1964 10 Degree Standard Observer'']"

definition RGB_CSS_COLORSPACES :: "string list" where
  "RGB_CSS_COLORSPACES =
     [''sRGB'', ''Adobe RGB (1998)'', ''Display P3'', ''ITU-R BT.2020'', ''ProPhoto RGB'']"

definition COLOR_MODELS_ALIASES :: "string list" where
  "COLOR_MODELS_ALIASES =
     [''aces'', ''adobe1998'', ''prophoto'', ''ALEXA Wide Gamut'']"

text \<open>
  What the script takes from the colour library: the names in its tables of spectral
  distributions, chromaticity coordinates, tristimulus values, colour matching functions
  and RGB colour spaces, and the values it computes. \<open>computed lib name obs ill ct\<close> is the
  value handed to \<^verbatim>\<open>result(name, ...)\<close> in \<^verbatim>\<open>convert_with_xyz\<close> and \<^verbatim>\<open>convert_to_css\<close>
  for an observer, an illuminant and a transform; \<open>computed_from_rgb\<close> is the same for
  \<^verbatim>\<open>convert_xyz_to_rgb\<close> and \<^verbatim>\<open>convert_rgb_no_xyz\<close>, which also depend on the colour space.
  The library's functions are taken to return.
\<close>

record library =
  SDS_ILLUMINANTS :: "string list"
  CCS_ILLUMINANTS :: "(string \<times> string list) list"
  TVS_ILLUMINANTS :: "(string \<times> string list) list"
  MSDS_CMFS :: "string list"
  RGB_COLOURSPACES :: "string list"
  computed :: "string \<Rightarrow> string \<Rightarrow> string \<Rightarrow> string option \<Rightarrow> pyval"
  computed_from_rgb :: "string \<Rightarrow> string \<Rightarrow> string \<Rightarrow> string \<Rightarrow> string option \<Rightarrow> pyval"

text \<open>
  The module level variables the conversions read: \<^verbatim>\<open>model\<close>, \<^verbatim>\<open>use_cats\<close> (\<open>None\<close> after
  \<^verbatim>\<open>--cat None\<close>), and \<^verbatim>\<open>linear_rgb\<close> and \<^verbatim>\<open>factor\<close>, which are \<open>None\<close> while nothing has
  been assigned to them (the main program assigns \<^verbatim>\<open>linear_rgb\<close> for an RGB input in a
  known colour space, and \<^verbatim>\<open>factor\<close> in every validation but those of Spectrum and
  Wavelength, which assign \<^verbatim>\<open>FACTOR\<close>).
\<close>

record globals =
  model :: color_model
  use_cats :: "string list option"
  linear_rgb :: "pyval option"
  factor :: "real option"

text \<open>
  One call of \<^verbatim>\<open>result\<close>: model, value, illuminant, observer, cat and
  \<^verbatim>\<open>no_scientific_notation\<close>; no call passes \<^verbatim>\<open>use_space_separated\<close>. A list of calls runs
  in order and stops at the first that raises.
\<close>

type_synonym call = "string \<times> pyval \<times> arg \<times> arg \<times> string option \<times> bool"

definition call_cat :: "call \<Rightarrow> string option" where
  "call_cat c = (case c of (m, val, ill, obs, ct, nsn) \<Rightarrow> ct)"

fun run_results :: "call list \<Rightarrow> dict \<Rightarrow> error + dict" where
  "run_results [] res = Inr res"
| "run_results ((m, val, ill, obs, ct, nsn) # cs) res =
     (case result m val ill obs ct False nsn res of
        Inl e \<Rightarrow> Inl e
      | Inr res1 \<Rightarrow> run_results cs res1)"

text \<open>The calls at the end of \<^verbatim>\<open>convert_to_css\<close>, lines 3980 to 3992.\<close>

definition css_results :: "library \<Rightarrow> string \<Rightarrow> string \<Rightarrow> string option \<Rightarrow> call list" where
  "css_results lib obs ill ct =
    (let ctx = (\<lambda>n. (n, computed lib n obs ill ct, AStr ill, AStr obs, ct, False));
         plain = (\<lambda>n. (n, computed lib n obs ill ct, AFalse, AFalse, None, False))
     in
     [ctx ''a98_rgb_css_color'', ctx ''cielab_css_color'', ctx ''cielchab_css_color'',
      ctx ''ciexyz_css_color'', ctx ''ciexyz_d50_css_color'', ctx ''ciexyz_d65_css_color'',
      ctx ''display_p3_css_color'', plain ''hexadecimal'', ctx ''linear_srgb_css_color'',
      ctx ''oklab_css_color'', ctx ''prophoto_rgb_css_color'', ctx ''rec_2020_css_color'',
      ctx ''srgb_css_color''])"

text \<open>
  The calls of \<^verbatim>\<open>convert_with_xyz\<close> in their order: line 3714 (\<open>macadam\<close>, for the
  illuminants A, C and D65), \<^verbatim>\<open>convert_to_css\<close> at line 3717, and lines 3737 to 3826.
  Where the script chooses between two variables by the model (\<^verbatim>\<open>cielab_adapted\<close> or
  \<^verbatim>\<open>cielab\<close>), the value is the library's \<open>computed\<close> one in both cases.
\<close>

definition xyz_results :: "library \<Rightarrow> string \<Rightarrow> string \<Rightarrow> string option \<Rightarrow> call list" where
  "xyz_results lib obs ill ct =
    (let ctx = (\<lambda>n. (n, computed lib n obs ill ct, AStr ill, AStr obs, ct, False));
         ctx_nosci = (\<lambda>n. (n, computed lib n obs ill ct, AStr ill, AStr obs, ct, True));
         plain = (\<lambda>n. (n, computed lib n obs ill ct, AFalse, AFalse, None, False))
     in (if ill = ''A'' \<or> ill = ''C'' \<or> ill = ''D65''
         then [(''macadam'', computed lib ''macadam'' obs ill ct, AStr ill, AFalse, None, False)]
         else [])
        @ css_results lib obs ill ct
        @
     [ctx ''atd95'', ctx ''cam02lcd'', ctx ''cam02scd'', ctx ''cam02ucs'', ctx ''cam16'',
      ctx ''cam16lcd'', ctx ''cam16scd'', ctx ''cam16ucs'', ctx ''cct'', ctx ''ciecam02'',
      ctx ''ciecam16'', ctx ''cielab'', ctx ''cielchab'', ctx ''cieluv'', ctx ''cielchuv'',
      ctx ''cieluvuv'', ctx ''cieucs'', ctx ''cieucsuv'', ctx ''cieuvw'', ctx ''ciexyz'',
      ctx ''clrpurity'', ctx ''compwave'', ctx ''din99'', ctx ''din99b'', ctx ''din99c'',
      ctx ''din99d'', ctx ''domwave'', ctx ''duv'', ctx ''expurity'', ctx ''hdrcielab'',
      ctx ''hdript'', ctx ''hellwig2022'', ctx ''hunt'', ctx ''hunterkakb'', ctx ''hunterlab'',
      ctx ''hunterrdab'', ctx ''iab'', ctx ''icacb'', ctx ''ictcp_2100_1_hlg'',
      ctx ''ictcp_2100_1_pq'', ctx ''ictcp_2100_2_hlg'', ctx ''ictcp_2100_2_pq'',
      ctx ''igpgtg'', ctx ''ipt'', ctx ''ipt_hue'', ctx ''iptragoo'', ctx_nosci ''izazbz'',
      ctx ''jmhcam16'', ctx ''jmhciecam02'', ctx ''jmhciecam16'', ctx ''jmhhellwig2022'',
      ctx_nosci ''jzazbz'', ctx ''kim2009'', ctx ''lightness'', ctx ''llab'',
      ctx ''luminance'', ctx ''mired'', ctx ''munsell_value'', ctx ''nayatani95'',
      ctx ''oklab'', ctx ''osaucs'', plain ''pointer'', ctx ''prolab'', ctx ''rlab'',
      ctx ''tintindex_cie'', plain ''wavelength'', ctx ''whiteness_cie'',
      ctx ''whiteness_e313'', ctx ''whiteness_berger'', ctx ''whiteness_stensby'', ctx ''xy'',
      ctx ''xyY'', ctx ''yellowness_d1925'', ctx ''yellowness_e313'', plain ''yrg'',
      ctx ''zcam''])"

text \<open>The calls of \<^verbatim>\<open>convert_rgb_no_xyz\<close>, lines 3315 to 3328, for one colour space.\<close>

definition rgb_no_xyz_results ::
  "library \<Rightarrow> string \<Rightarrow> string \<Rightarrow> string \<Rightarrow> string option \<Rightarrow> call list" where
  "rgb_no_xyz_results lib colorspaceid obs ill ct =
    map (\<lambda>n. (n, computed_from_rgb lib n colorspaceid obs ill ct, AStr ill, AFalse, None, False))
     [''cmy'', ''cmyk'', ''hcl'', ''hsl'', ''hsl_css_color'', ''hsv'', ''hwb'', ''hwb_css_color'',
      ''ihls'', ''prismatic'', ''rgbluminance'', ''ycbcr'', ''yccbccrc'', ''ycocg'']"

text \<open>
  \<^verbatim>\<open>convert_xyz_to_rgb(colorspaceid, observer, illuminant, cat)\<close>: nothing for an alias or
  for a colour space whose template names another illuminant; \<^verbatim>\<open>denormalize(encoded_rgb,
  factor)\<close> reads the global \<^verbatim>\<open>factor\<close>.
\<close>

definition convert_xyz_to_rgb ::
  "library \<Rightarrow> globals \<Rightarrow> string \<Rightarrow> string \<Rightarrow> string \<Rightarrow> string option \<Rightarrow> dict \<Rightarrow> error + dict"
  where
  "convert_xyz_to_rgb lib g colorspaceid obs ill ct res =
    (if colorspaceid \<in> set COLOR_MODELS_ALIASES then Inr res
     else case map_of res (KStr colorspaceid) of
       None \<Rightarrow> Inl KeyError
     | Some tv \<Rightarrow>
         (case as_dict tv of
            None \<Rightarrow> Inl TypeError
          | Some t \<Rightarrow>
              (case map_of t (KStr ''illuminant'') of
                 None \<Rightarrow> Inl KeyError
               | Some i \<Rightarrow>
                   if i \<noteq> PStr ''all'' \<and> i \<noteq> PStr ill then Inr res
                   else (case factor g of
                           None \<Rightarrow> Inl NameError
                         | Some f \<Rightarrow>
                             (case result colorspaceid
                                     (computed_from_rgb lib colorspaceid colorspaceid obs ill ct)
                                     (AStr ill) (AStr obs) ct False False res of
                                Inl e \<Rightarrow> Inl e
                              | Inr res1 \<Rightarrow>
                                  run_results (rgb_no_xyz_results lib colorspaceid obs ill ct)
                                    res1)))))"

fun rgb_colourspaces_loop ::
  "library \<Rightarrow> globals \<Rightarrow> string list \<Rightarrow> string \<Rightarrow> string \<Rightarrow> string option \<Rightarrow> dict \<Rightarrow> error + dict"
  where
  "rgb_colourspaces_loop lib g [] obs ill ct res = Inr res"
| "rgb_colourspaces_loop lib g (colorspaceid # rest) obs ill ct res =
     (case convert_xyz_to_rgb lib g colorspaceid obs ill ct res of
        Inl e \<Rightarrow> Inl e
      | Inr res1 \<Rightarrow> rgb_colourspaces_loop lib g rest obs ill ct res1)"

text \<open>
  \<^verbatim>\<open>model_functions[model]()\<close>, line 3431. The functions \<^verbatim>\<open>process_cielchuv\<close>,
  \<^verbatim>\<open>process_cielab_or_cielchab\<close> and \<^verbatim>\<open>process_cieluv\<close> read \<^verbatim>\<open>illuminant_xy_d65\<close>, and
  \<^verbatim>\<open>process_ciexyz\<close> and \<^verbatim>\<open>process_spectrum\<close> read \<^verbatim>\<open>illuminant_xyz_d65\<close>: these are local
  variables of \<^verbatim>\<open>convert_with_xyz\<close> (they are not in its \<^verbatim>\<open>global\<close> statements) and no module
  level variable has these names, so the read raises \<open>NameError\<close>.
  \<^verbatim>\<open>process_wavelength\<close> returns, with \<^verbatim>\<open>None\<close> for \<^verbatim>\<open>ciexyz_c\<close>. The value returned here says
  whether \<^verbatim>\<open>ciexyz_c\<close> is an array.
\<close>

fun model_functions :: "library \<Rightarrow> string \<Rightarrow> color_model \<Rightarrow> error + bool" where
  "model_functions lib obs CIELCHuv = Inl NameError"
| "model_functions lib obs CIELAB = Inl NameError"
| "model_functions lib obs CIELCHab = Inl NameError"
| "model_functions lib obs CIELUV = Inl NameError"
| "model_functions lib obs CIEXYZ = Inl NameError"
| "model_functions lib obs Spectrum =
     (if obs \<notin> set (MSDS_CMFS lib) then Inl KeyError else Inl NameError)"
| "model_functions lib obs Wavelength =
     (if obs \<notin> set (MSDS_CMFS lib) then Inl KeyError else Inr False)"
| "model_functions lib obs RGB = Inl KeyError"

text \<open>
  The loop \<^verbatim>\<open>for cat in cats:\<close> of lines 3441 to 3456. Its body is the computation of
  \<^verbatim>\<open>ciexyz\<close>, \<^verbatim>\<open>ciexyz_d65\<close> and \<^verbatim>\<open>ciexyz_c\<close> from \<^verbatim>\<open>linear_rgb\<close> for an RGB input, and nothing
  for another model; everything from line 3458 on comes after the loop. The state is the
  variable \<^verbatim>\<open>cat\<close> (\<open>None\<close> while unbound) and whether \<^verbatim>\<open>ciexyz_c\<close> is an array (\<open>None\<close>
  while \<^verbatim>\<open>ciexyz\<close> and \<^verbatim>\<open>ciexyz_c\<close> are unassigned).
\<close>

record loop_state =
  cat_var :: "string option option"
  ciexyz_c_var :: "bool option"

fun transforms_loop :: "globals \<Rightarrow> string option list \<Rightarrow> loop_state \<Rightarrow> error + loop_state" where
  "transforms_loop g [] st = Inr st"
| "transforms_loop g (c # cs) st =
     (if model g = RGB
      then (case linear_rgb g of
              None \<Rightarrow> Inl NameError
            | Some rgb \<Rightarrow> transforms_loop g cs (st\<lparr>cat_var := Some c, ciexyz_c_var := Some True\<rparr>))
      else transforms_loop g cs (st\<lparr>cat_var := Some c\<rparr>))"

text \<open>
  \<^verbatim>\<open>convert_with_xyz(observer, illuminant)\<close>. After the two guards: the subscripts of lines
  3407 to 3417, the model's function, the loop over the transforms, \<^verbatim>\<open>ciexyz * 100\<close> at
  line 3458 (\<open>NameError\<close> when no iteration has assigned \<^verbatim>\<open>ciexyz\<close>),
  \<^verbatim>\<open>MSDS_CMFS[observer]\<close> at line 3489, \<^verbatim>\<open>ciexyz_c * 100\<close> at line 3689 (\<open>TypeError\<close> on
  \<^verbatim>\<open>None\<close>), the calls of \<^verbatim>\<open>result\<close>, and for a model other than RGB the loop over the RGB
  colour spaces.
\<close>

definition convert_with_xyz ::
  "library \<Rightarrow> globals \<Rightarrow> string \<Rightarrow> string \<Rightarrow> dict \<Rightarrow> error + dict" where
  "convert_with_xyz lib g obs ill res =
    (if model g = Spectrum \<and> ill \<notin> set (SDS_ILLUMINANTS lib) then Inr res
     else case map_of (CCS_ILLUMINANTS lib) obs of
       None \<Rightarrow> Inl KeyError
     | Some ccs \<Rightarrow>
         if ill \<notin> set ccs then Inr res
         else if ''C'' \<notin> set ccs \<or> ''D65'' \<notin> set ccs then Inl KeyError
         else (case map_of (TVS_ILLUMINANTS lib) obs of
           None \<Rightarrow> Inl KeyError
         | Some tvs \<Rightarrow>
             if ''C'' \<notin> set tvs \<or> ''D65'' \<notin> set tvs then Inl KeyError
             else (case (if model g \<noteq> RGB then model_functions lib obs (model g)
                         else Inr True) of
               Inl e \<Rightarrow> Inl e
             | Inr c_is_array \<Rightarrow>
                 (case (if model g = RGB then map_option (map Some) (use_cats g)
                        else Some [None]) of
                    None \<Rightarrow> Inl TypeError
                  | Some cats \<Rightarrow>
                      (case transforms_loop g cats
                              \<lparr>cat_var = None,
                               ciexyz_c_var = (if model g \<noteq> RGB then Some c_is_array else None)\<rparr> of
                         Inl e \<Rightarrow> Inl e
                       | Inr st \<Rightarrow>
                           (case ciexyz_c_var st of
                              None \<Rightarrow> Inl NameError
                            | Some is_array \<Rightarrow>
                                if obs \<notin> set (MSDS_CMFS lib) then Inl KeyError
                                else if \<not> is_array then Inl TypeError
                                else (case cat_var st of
                                        None \<Rightarrow> Inl NameError
                                      | Some ct \<Rightarrow>
                                          (case run_results (xyz_results lib obs ill ct) res of
                                             Inl e \<Rightarrow> Inl e
                                           | Inr res1 \<Rightarrow>
                                               if model g \<noteq> RGB
                                               then rgb_colourspaces_loop lib g
                                                      (RGB_COLOURSPACES lib) obs ill ct res1
                                               else Inr res1))))))))"

text \<open>
  Lines 4254 to 4264 of the main program: for each standard observer, the list chosen by
  \<^verbatim>\<open>--illuminant_list\<close>.
\<close>

fun for_illuminants ::
  "library \<Rightarrow> globals \<Rightarrow> string \<Rightarrow> string list \<Rightarrow> dict \<Rightarrow> error + dict" where
  "for_illuminants lib g obs [] res = Inr res"
| "for_illuminants lib g obs (ill # rest) res =
     (case convert_with_xyz lib g obs ill res of
        Inl e \<Rightarrow> Inl e
      | Inr res1 \<Rightarrow> for_illuminants lib g obs rest res1)"

fun for_observers ::
  "library \<Rightarrow> globals \<Rightarrow> string \<Rightarrow> string list \<Rightarrow> dict \<Rightarrow> error + dict" where
  "for_observers lib g il [] res = Inr res"
| "for_observers lib g il (obs # rest) res =
     (case (if il = ''All'' then for_illuminants lib g obs RGB_ILLUMINANTS_LIST res
            else if il = ''CIE'' then for_illuminants lib g obs CIE_ILLUMINANTS_LIST res
            else if il = ''ISO_7589'' then for_illuminants lib g obs ISO_7589_ILLUMINANTS_LIST res
            else Inr res) of
        Inl e \<Rightarrow> Inl e
      | Inr res1 \<Rightarrow> for_observers lib g il rest res1)"

definition fan_out :: "library \<Rightarrow> globals \<Rightarrow> string \<Rightarrow> dict \<Rightarrow> error + dict" where
  "fan_out lib g il res = for_observers lib g il STANDARD_OBSERVERS res"

text \<open>
  The specification's reading: the list an \<^verbatim>\<open>--illuminant_list\<close> choice selects, and the
  conversion attempted for each pair of a list in turn.
\<close>

definition selected_illuminants :: "string \<Rightarrow> string list" where
  "selected_illuminants il =
    (if il = ''All'' then RGB_ILLUMINANTS_LIST
     else if il = ''CIE'' then CIE_ILLUMINANTS_LIST
     else if il = ''ISO_7589'' then ISO_7589_ILLUMINANTS_LIST
     else [])"

fun convert_pairs ::
  "library \<Rightarrow> globals \<Rightarrow> (string \<times> string) list \<Rightarrow> dict \<Rightarrow> error + dict" where
  "convert_pairs lib g [] res = Inr res"
| "convert_pairs lib g ((obs, ill) # rest) res =
     (case convert_with_xyz lib g obs ill res of
        Inl e \<Rightarrow> Inl e
      | Inr res1 \<Rightarrow> convert_pairs lib g rest res1)"

definition skipped :: "library \<Rightarrow> globals \<Rightarrow> string \<Rightarrow> string \<Rightarrow> bool" where
  "skipped lib g obs ill =
    ((model g = Spectrum \<and> ill \<notin> set (SDS_ILLUMINANTS lib))
     \<or> (case map_of (CCS_ILLUMINANTS lib) obs of None \<Rightarrow> False | Some ccs \<Rightarrow> ill \<notin> set ccs))"

text \<open>An observer and an illuminant for which every subscript of lines 3403 to 3489
  finds its key.\<close>

definition available :: "library \<Rightarrow> string \<Rightarrow> string \<Rightarrow> bool" where
  "available lib obs ill =
    (case (map_of (CCS_ILLUMINANTS lib) obs, map_of (TVS_ILLUMINANTS lib) obs) of
       (Some ccs, Some tvs) \<Rightarrow>
         ill \<in> set ccs \<and> ''C'' \<in> set ccs \<and> ''D65'' \<in> set ccs
         \<and> ''C'' \<in> set tvs \<and> ''D65'' \<in> set tvs \<and> obs \<in> set (MSDS_CMFS lib)
     | _ \<Rightarrow> False)"

text \<open>A small library and the globals of an RGB run with two transforms.\<close>

definition library_example :: library where
  "library_example = \<lparr>
     SDS_ILLUMINANTS = [''A'', ''D65''],
     CCS_ILLUMINANTS =
       [(''CIE 1931 2 Degree Standard Observer'', [''A'', ''C'', ''D65'']),
        (''CIE 1964 10 Degree Standard Observer'', [''C'', ''D65''])],
     TVS_ILLUMINANTS =
       [(''CIE 1931 2 Degree Standard Observer'', [''A'', ''C'', ''D65'']),
        (''CIE 1964 10 Degree Standard Observer'', [''C'', ''D65''])],
     MSDS_CMFS = [''CIE 1931 2 Degree Standard Observer'',
                  ''CIE 1964 10 Degree Standard Observer''],
     RGB_COLOURSPACES = [''sRGB''],
     computed = (\<lambda>n obs ill ct. PStr n),
     computed_from_rgb = (\<lambda>n cs obs ill ct. PStr n) \<rparr>"

definition globals_example :: globals where
  "globals_example = \<lparr>
     model = RGB, use_cats = Some [''Bradford'', ''CAT02''],
     linear_rgb = Some (NdArray [PFloat 0.5, PFloat 0.5, PFloat 0.5]),
     factor = Some 255 \<rparr>"

text \<open>
  A result dictionary with a template for every model that \<^verbatim>\<open>convert_with_xyz\<close> stores, and
  the globals of a run on a CIEXYZ input at the default bit depth.
\<close>

definition templates_example :: dict where
  "templates_example =
     map (\<lambda>c. (KStr (fst c), PDict [(KStr ''name'', PStr (fst c))]))
       (xyz_results library_example [] ''D65'' None)"

definition globals_ciexyz :: globals where
  "globals_ciexyz = \<lparr>
     model = CIEXYZ, use_cats = Some CHROMATIC_ADAPTATION_TRANSFORMS,
     linear_rgb = None, factor = Some 255 \<rparr>"

text \<open>
  The pairs whose conversion is attempted in the loops of the main program: a call of
  \<^verbatim>\<open>convert_with_xyz\<close> that gets past its two guards (lines 3401 to 3404) attempts the
  conversion, and the loops go on to the next pair when the call returns.
\<close>

definition passes_guards :: "library \<Rightarrow> globals \<Rightarrow> string \<Rightarrow> string \<Rightarrow> bool" where
  "passes_guards lib g obs ill =
    (\<not> (model g = Spectrum \<and> ill \<notin> set (SDS_ILLUMINANTS lib))
     \<and> (case map_of (CCS_ILLUMINANTS lib) obs of None \<Rightarrow> False | Some ccs \<Rightarrow> ill \<in> set ccs))"

fun attempted_conversions ::
  "library \<Rightarrow> globals \<Rightarrow> (string \<times> string) list \<Rightarrow> dict \<Rightarrow> (string \<times> string) list" where
  "attempted_conversions lib g [] res = []"
| "attempted_conversions lib g ((obs, ill) # rest) res =
     (if passes_guards lib g obs ill then [(obs, ill)] else [])
     @ (case convert_with_xyz lib g obs ill res of
          Inl e \<Rightarrow> []
        | Inr res1 \<Rightarrow> attempted_conversions lib g rest res1)"

section \<open>The JSON document\<close>

text \<open>
  A JSON document as a tree. The text of a number, in a value or in a key, is the
  rendering of the \<^verbatim>\<open>json\<close> module; the separators are those given to \<^verbatim>\<open>json.dumps\<close>.
\<close>

datatype json =
    JNull
  | JBool bool
  | JInt int
  | JFloat real
  | JStr string
  | JArr "json list"
  | JObj "(key \<times> json) list"

text \<open>\<^verbatim>\<open>ndarray.tolist()\<close>: nested lists of Python scalars; an item that is no NumPy value
  stays as it is.\<close>

primrec tolist_item :: "pyval \<Rightarrow> pyval" where
  "tolist_item PNone = PNone"
| "tolist_item (PBool b) = PBool b"
| "tolist_item (PInt i) = PInt i"
| "tolist_item (PFloat x) = PFloat x"
| "tolist_item (PStr s) = PStr s"
| "tolist_item (NpInt i) = PInt i"
| "tolist_item (NpFloat x) = PFloat x"
| "tolist_item (PList xs) = PList xs"
| "tolist_item (NdArray xs) = PList (map tolist_item xs)"
| "tolist_item (PDict d) = PDict d"

text \<open>\<^verbatim>\<open>NumpyEncoder.default(o)\<close>; the last branch is \<^verbatim>\<open>super().default(o)\<close>, which raises
  \<open>TypeError\<close>.\<close>

definition NumpyEncoder_default :: "pyval \<Rightarrow> error + pyval" where
  "NumpyEncoder_default o_v =
    (case o_v of
       NpInt i \<Rightarrow> Inr (PInt i)
     | NpFloat x \<Rightarrow> Inr (PFloat x)
     | NdArray xs \<Rightarrow> Inr (tolist_item (NdArray xs))
     | _ \<Rightarrow> Inl TypeError)"

text \<open>The results of encoding the items of a list or a dictionary: the first error, or
  all the items.\<close>

fun collect :: "(error + 'a) list \<Rightarrow> error + 'a list" where
  "collect [] = Inr []"
| "collect (Inl e # rest) = Inl e"
| "collect (Inr x # rest) = (case collect rest of Inl e \<Rightarrow> Inl e | Inr xs \<Rightarrow> Inr (x # xs))"

fun np_depth :: "pyval \<Rightarrow> nat" where
  "np_depth (NpInt i) = 1"
| "np_depth (NpFloat x) = 1"
| "np_depth (NdArray xs) = 1"
| "np_depth v = 0"

lemma size_tolist_item: "size (tolist_item v) = size v"
  by (induction v) (simp_all add: size_list_conv_sum_list comp_def cong: map_cong)

lemma np_depth_le: "np_depth v \<le> 1"
  by (cases v) simp_all

text \<open>
  \<^verbatim>\<open>json.dumps(o, cls=NumpyEncoder)\<close> as a tree: the encoder writes the values it knows, and
  for any other value encodes what \<^verbatim>\<open>default\<close> returns for it.
\<close>

function json_encode :: "pyval \<Rightarrow> error + json" where
  "json_encode PNone = Inr JNull"
| "json_encode (PBool b) = Inr (JBool b)"
| "json_encode (PInt i) = Inr (JInt i)"
| "json_encode (PFloat x) = Inr (JFloat x)"
| "json_encode (PStr s) = Inr (JStr s)"
| "json_encode (PList xs) =
     (case collect (map json_encode xs) of Inl e \<Rightarrow> Inl e | Inr js \<Rightarrow> Inr (JArr js))"
| "json_encode (PDict d) =
     (case collect (map (\<lambda>(k, v). case json_encode v of Inl e \<Rightarrow> Inl e | Inr j \<Rightarrow> Inr (k, j)) d) of
        Inl e \<Rightarrow> Inl e
      | Inr kjs \<Rightarrow> Inr (JObj kjs))"
| "json_encode (NpInt i) =
     (case NumpyEncoder_default (NpInt i) of Inl e \<Rightarrow> Inl e | Inr w \<Rightarrow> json_encode w)"
| "json_encode (NpFloat x) =
     (case NumpyEncoder_default (NpFloat x) of Inl e \<Rightarrow> Inl e | Inr w \<Rightarrow> json_encode w)"
| "json_encode (NdArray xs) =
     (case NumpyEncoder_default (NdArray xs) of Inl e \<Rightarrow> Inl e | Inr w \<Rightarrow> json_encode w)"
  by pat_completeness auto
termination
proof (relation "measure (\<lambda>v. 2 * size v + np_depth v)", goal_cases)
  case 1
  then show ?case by simp
next
  case (2 xs x)
  then have "size x \<le> size_list size xs"
    by (simp add: size_list_estimation')
  moreover have "np_depth x \<le> 1" by (rule np_depth_le)
  ultimately show ?case by simp
next
  case (3 d kv k v)
  then have "size_prod (\<lambda>x. 0) size kv \<le> size_list (size_prod (\<lambda>x. 0) size) d"
    by (simp add: size_list_estimation')
  moreover from 3 have "size v \<le> size_prod (\<lambda>x. 0) size kv" by auto
  moreover have "np_depth v \<le> 1" by (rule np_depth_le)
  ultimately show ?case by simp
next
  case (4 i w)
  then show ?case by (auto simp add: NumpyEncoder_default_def)
next
  case (5 x w)
  then show ?case by (auto simp add: NumpyEncoder_default_def)
next
  case (6 xs w)
  then have "w = tolist_item (NdArray xs)"
    by (simp add: NumpyEncoder_default_def)
  then have "size w = size (NdArray xs)" "np_depth w = 0"
    by (simp_all add: size_tolist_item del: tolist_item.simps) simp
  then show ?case by simp
qed

section \<open>The end of the main program\<close>

text \<open>
  The spectral recovery of lines 4268 to 4282, for an input that is not a spectrum: the
  two subscripts, \<^verbatim>\<open>XYZ_to_sd_Jakob2019(ciexyz_d65, ...)\<close>, which reads the global
  \<^verbatim>\<open>ciexyz_d65\<close>, and the call of \<^verbatim>\<open>result\<close>. The plot that follows is the library's.
\<close>

definition spectral_recovery ::
  "library \<Rightarrow> globals \<Rightarrow> string \<Rightarrow> bool \<Rightarrow> dict \<Rightarrow> error + dict" where
  "spectral_recovery lib g input_ill ciexyz_d65_assigned res =
    (if model g \<noteq> Spectrum then
       (if ''CIE 1931 2 Degree Standard Observer'' \<notin> set (MSDS_CMFS lib) then Inl KeyError
        else if input_ill \<notin> set (SDS_ILLUMINANTS lib) then Inl KeyError
        else if \<not> ciexyz_d65_assigned then Inl NameError
        else result ''sr_sd''
               (computed lib ''sr_sd'' ''CIE 1931 2 Degree Standard Observer'' input_ill None)
               (AStr input_ill) (AStr ''CIE 1931 2 Degree Standard Observer'') None
               False False res)
     else Inr res)"

text \<open>
  Whether \<^verbatim>\<open>ciexyz_d65\<close> has a value after a fan-out that returned. The main program never
  assigns it; \<^verbatim>\<open>convert_with_xyz\<close> assigns it in the loop over the transforms for an RGB
  input, so it has a value when some pair was not skipped. (For another model it is
  assigned at line 3431 only by \<^verbatim>\<open>process_wavelength\<close>, and that conversion raises
  later.)
\<close>

definition ciexyz_d65_after_fan_out :: "library \<Rightarrow> globals \<Rightarrow> string \<Rightarrow> bool" where
  "ciexyz_d65_after_fan_out lib g il =
    (model g = RGB
     \<and> list_ex (\<lambda>(obs, ill). \<not> skipped lib g obs ill)
          (List.product STANDARD_OBSERVERS (selected_illuminants il)))"

text \<open>
  Standard output is the list of the documents printed. Lines 4254 to 4312: the fan-out,
  the spectral recovery, \<^verbatim>\<open>json.dumps\<close> and the one \<^verbatim>\<open>print\<close> of the script. Nothing
  before line 4254 writes to standard output in a run that goes on
  (\<^verbatim>\<open>MyParser.error\<close> prints the help and exits).
\<close>

definition main_from_fan_out ::
  "library \<Rightarrow> globals \<Rightarrow> string \<Rightarrow> string \<Rightarrow> dict \<Rightarrow> error + (dict \<times> json list)" where
  "main_from_fan_out lib g il input_ill res =
    (case fan_out lib g il res of
       Inl e \<Rightarrow> Inl e
     | Inr res1 \<Rightarrow>
         (case spectral_recovery lib g input_ill (ciexyz_d65_after_fan_out lib g il) res1 of
            Inl e \<Rightarrow> Inl e
          | Inr res2 \<Rightarrow>
              (case json_encode (PDict res2) of
                 Inl e \<Rightarrow> Inl e
               | Inr dumped \<Rightarrow> Inr (res2, [] @ [dumped]))))"

section \<open>The input model is determined by priority\<close>

lemma find_priority:
  "List.find (complete_value_set a) input_models_in_priority_order = determine_color_model a"
  by (simp add: input_models_in_priority_order_def determine_color_model_def)

lemma set_input_models: "set input_models_in_priority_order = UNIV"
proof -
  have "m \<in> set input_models_in_priority_order" for m
    by (cases m) (simp_all add: input_models_in_priority_order_def)
  then show ?thesis by blast
qed

lemma determine_color_model_plotpath [simp]:
  "determine_color_model (a\<lparr>plotpath := p\<rparr>) = determine_color_model a"
  by (simp add: determine_color_model_def)

text \<open>
  Claim C2. \<^verbatim>\<open>determine_color_model\<close> returns the first model, in the order CIELAB, CIELCHab,
  CIELUV, CIELCHuv, CIEXYZ, RGB, Spectrum, Wavelength, whose complete set of values is in the
  parsed arguments; it returns a model exactly when some model has its complete set; and
  when none has, \<^verbatim>\<open>parse_arguments\<close> ends the program with exit status 2, while otherwise
  it returns the arguments with that model.
\<close>

theorem determine_color_model_exactly_when_complete:
  "determine_color_model a = List.find (complete_value_set a) input_models_in_priority_order
   \<and> ((\<exists>m. determine_color_model a = Some m) = (\<exists>m. complete_value_set a m))
   \<and> ((parse_arguments a = Inl (SystemExit 2)) = (\<not> (\<exists>m. complete_value_set a m)))
   \<and> ((\<exists>a'. parse_arguments a = Inr (a', m)) = (determine_color_model a = Some m))"
proof -
  have f: "determine_color_model a = List.find (complete_value_set a) input_models_in_priority_order"
    by (simp add: find_priority)
  have e: "(\<exists>m. determine_color_model a = Some m) = (\<exists>m. complete_value_set a m)"
  proof -
    have "(List.find (complete_value_set a) input_models_in_priority_order = None)
          = (\<not> (\<exists>m. m \<in> set input_models_in_priority_order \<and> complete_value_set a m))"
      by (simp only: find_None_iff)
    then have "(List.find (complete_value_set a) input_models_in_priority_order \<noteq> None)
          = (\<exists>m. complete_value_set a m)"
      by (simp add: set_input_models)
    then show ?thesis
      by (simp add: f)
  qed
  have p: "(parse_arguments a = Inl (SystemExit 2)) = (determine_color_model a = None)"
    by (simp add: parse_arguments_def Let_def split: option.splits)
  have q: "(\<exists>a'. parse_arguments a = Inr (a', m)) = (determine_color_model a = Some m)"
    by (auto simp add: parse_arguments_def Let_def split: option.splits)
  from e have "(determine_color_model a = None) = (\<not> (\<exists>m. complete_value_set a m))"
    by (cases "determine_color_model a") auto
  with f e p q show ?thesis by simp
qed

theorem determine_color_model_witness:
  "determine_color_model (default_args\<lparr>x_val := Some 0.2, y_val := Some 0.3, z_val := Some 0.4,
       red := Some 1, green := Some 2, blue := Some 3, wave := Some 500\<rparr>) = Some CIEXYZ
   \<and> parse_arguments default_args = Inl (SystemExit 2)"
proof -
  let ?a = "default_args\<lparr>x_val := Some 0.2, y_val := Some 0.3, z_val := Some 0.4,
       red := Some 1, green := Some 2, blue := Some 3, wave := Some 500\<rparr>"
  have "List.find (complete_value_set ?a) input_models_in_priority_order = Some CIEXYZ"
    by (simp add: input_models_in_priority_order_def default_args_def)
  moreover have "\<not> (\<exists>m. complete_value_set default_args m)"
  proof
    assume "\<exists>m. complete_value_set default_args m"
    then obtain m where "complete_value_set default_args m" ..
    then show False by (cases m) (simp_all add: default_args_def)
  qed
  ultimately show ?thesis
    using determine_color_model_exactly_when_complete [of ?a]
      determine_color_model_exactly_when_complete [of default_args]
    by simp
qed

section \<open>RGB values are checked against the bit depth\<close>

text \<open>
  Claim C4. For a bit depth of the table (\<open>8\<close>, \<open>15+1\<close>, \<open>16\<close>, \<open>32\<close>, with maximum 255, 32768,
  65535 and 1), \<^verbatim>\<open>validate_rgb_values\<close> raises \<open>ValueError\<close> if and only if one of red, green,
  blue is outside \<open>[0, M]\<close>, and otherwise returns the three values unchanged together
  with \<open>M\<close>.
\<close>

theorem validate_rgb_values_range:
  assumes "BITDEPTH_FACTOR bd = Some M"
  shows "M = (if bd = ''8'' then 255 else if bd = ''15+1'' then 32768
              else if bd = ''16'' then 65535 else 1)
    \<and> ((\<exists>msg. validate_rgb_values bd r g b = Inl (ValueError msg))
        = (r < 0 \<or> M < r \<or> g < 0 \<or> M < g \<or> b < 0 \<or> M < b))
    \<and> (\<not> (r < 0 \<or> M < r \<or> g < 0 \<or> M < g \<or> b < 0 \<or> M < b)
        \<longrightarrow> validate_rgb_values bd r g b = Inr (r, g, b, M))
    \<and> (\<forall>e. validate_rgb_values bd r g b = Inl e \<longrightarrow> (\<exists>msg. e = ValueError msg))"
proof -
  have m: "M = (if bd = ''8'' then 255 else if bd = ''15+1'' then 32768
              else if bd = ''16'' then 65535 else 1)"
    using assms by (auto simp add: BITDEPTH_FACTOR_def split: if_splits)
  show ?thesis
    using assms m by (auto simp add: validate_rgb_values_def not_le)
qed

theorem validate_rgb_values_witness:
  "BITDEPTH_FACTOR ''16'' = Some 65535
   \<and> validate_rgb_values ''16'' 65535 0 300.5 = Inr (65535, 0, 300.5, 65535)
   \<and> (\<exists>msg. validate_rgb_values ''16'' 65536 0 300.5 = Inl (ValueError msg))"
proof -
  have h: "BITDEPTH_FACTOR ''16'' = Some 65535"
    by (simp add: BITDEPTH_FACTOR_def)
  show ?thesis
    using h validate_rgb_values_range [OF h, of 65535 0 "300.5"]
      validate_rgb_values_range [OF h, of 65536 0 "300.5"]
    by simp
qed

section \<open>CIELCHab values are checked against fixed ranges\<close>

lemma validate_cielchab_values_eq:
  "BITDEPTH_FACTOR bd = Some f \<Longrightarrow>
   validate_cielchab_values bd l c h =
     (if \<not> (0 \<le> l \<and> l \<le> 100) then Inl (ValueError ''lchab_l_val is out of range'')
      else if \<not> (0 \<le> c \<and> c \<le> 230) then Inl (ValueError ''lchab_ch_val is out of range'')
      else if \<not> (0 \<le> h \<and> h \<le> 360) then Inl (ValueError ''lchab_ab_val is out of range'')
      else Inr (l, c, h, f))"
  by (simp add: validate_cielchab_values_def Let_def)

lemma BITDEPTH_FACTOR_8: "BITDEPTH_FACTOR ''8'' = Some 255"
  by (simp add: BITDEPTH_FACTOR_def)

lemma BITDEPTH_FACTOR_16: "BITDEPTH_FACTOR ''16'' = Some 65535"
  by (simp add: BITDEPTH_FACTOR_def)

lemma validate_cielab_values_16:
  "validate_cielab_values ''16'' 30000 100 180 = Inr (30000, 100, 180, 65535)"
  by (simp add: validate_cielab_values_def CIELAB_DEPTH_VALUES_def BITDEPTH_FACTOR_def)

text \<open>
  Claim C5 does not hold of the code. \<^verbatim>\<open>validate_cielchab_values\<close> checks the three values
  against the ranges \<open>0..100\<close>, \<open>0..230\<close> and \<open>0..360\<close> written in its body, whatever the bit
  depth, which only selects the factor returned. On \<^verbatim>\<open>--bitdepth 16 --lchab_l_val 30000
  --lchab_ch_val 100 --lchab_ab_val 180\<close> it raises \<open>ValueError\<close>, where
  \<^verbatim>\<open>validate_cielab_values\<close>, which takes its ranges from the table of the bit depth, accepts
  the same three numbers; and no triple is accepted at one of the bit depths \<open>8\<close> and \<open>16\<close>
  and rejected at the other.
\<close>

theorem validate_cielchab_values_ignores_bitdepth:
  "validate_cielchab_values ''16'' 30000 100 180
       = Inl (ValueError ''lchab_l_val is out of range'')
   \<and> validate_cielab_values ''16'' 30000 100 180 = Inr (30000, 100, 180, 65535)
   \<and> \<not> (\<exists>l c h. accepted (validate_cielchab_values ''8'' l c h)
              \<noteq> accepted (validate_cielchab_values ''16'' l c h))"
  by (simp add: validate_cielchab_values_eq [OF BITDEPTH_FACTOR_8]
      validate_cielchab_values_eq [OF BITDEPTH_FACTOR_16] validate_cielab_values_16 accepted_def)

theorem validate_cielchab_values_ignores_bitdepth_witness:
  "accepted (validate_cielab_values ''16'' 30000 100 180)
   \<and> \<not> accepted (validate_cielchab_values ''16'' 30000 100 180)
   \<and> accepted (validate_cielchab_values ''8'' 100 230 360)
   \<and> accepted (validate_cielchab_values ''16'' 100 230 360)"
proof -
  have a: "validate_cielchab_values ''8'' 100 230 360 = Inr (100, 230, 360, 255)"
    by (simp add: validate_cielchab_values_eq [OF BITDEPTH_FACTOR_8])
  from validate_cielchab_values_ignores_bitdepth
  have b: "accepted (validate_cielchab_values ''8'' 100 230 360)
             = accepted (validate_cielchab_values ''16'' 100 230 360)"
    by blast
  from a b validate_cielchab_values_ignores_bitdepth show ?thesis
    by (simp add: accepted_def)
qed

section \<open>Spectral parameters and data are checked\<close>

lemma binary_exponent_numeral:
  "binary_exponent (numeral k) x =
     (if 2 \<le> x then binary_exponent (pred_numeral k) (x / 2) + 1
      else if x < 1 then binary_exponent (pred_numeral k) (x * 2) - 1
      else 0)"
  by (simp add: numeral_eq_Suc)

lemma outside_0_1:
  "(\<not> within_0_1 x) = (flt x (Finite 0) \<or> flt (Finite 1) x \<or> x = NaN)"
  by (cases x) (auto simp add: within_0_1_def)

lemma list_ex_outside_0_1:
  "NaN \<notin> set d \<Longrightarrow>
   (list_ex (\<lambda>x. flt x (Finite 0)) d \<or> list_ex (\<lambda>x. flt (Finite 1) x) d)
     = list_ex (\<lambda>x. \<not> within_0_1 x) d"
  by (induction d) (auto simp add: outside_0_1)

lemma validate_spectrum_values_without_nan:
  assumes "NaN \<notin> set d"
  shows "validate_spectrum_values s t i d =
     (if spectrum_rejected s t i d
      then (if \<not> (380 \<le> s \<and> s \<le> 750 \<and> 400 \<le> t \<and> t \<le> 780 \<and> 1 \<le> i \<and> i \<le> 20)
            then Inl (ValueError ''Spectral parameters are out of range'')
            else if t \<le> s
            then Inl (ValueError ''Stop value should be greater than start value'')
            else if int (length d) \<noteq> py_int (true_divide (t - s) i) + 1
            then Inl (ValueError
                   (''Data length mismatch. Expected ''
                    @ str_int (py_int (true_divide (t - s) i) + 1)
                    @ '' values but got '' @ decimal (length d) @ '' values.''))
            else Inl (ValueError ''Spectral data values are out of 0-1 range''))
      else Inr (s, t, i, d))"
  unfolding validate_spectrum_values_def spectrum_rejected_def Let_def
    list_ex_outside_0_1 [OF assms]
  by (auto simp add: not_le not_less)

lemma true_divide_20_10: "py_int (true_divide (400 - 380) 10) + 1 = 3"
  by (simp add: true_divide_def py_int_def round_to_binary64_def binary_exponent_numeral
      pow2_def rint_def Let_def)

lemma validate_spectrum_values_nan:
  "validate_spectrum_values 380 400 10 [NaN, Finite 0.5, Finite 1]
     = Inr (380, 400, 10, [NaN, Finite 0.5, Finite 1])"
  unfolding validate_spectrum_values_def Let_def true_divide_20_10
  by simp

text \<open>
  Claim C6 does not hold of the code. The last check is \<^verbatim>\<open>np.any(data < 0) or
  np.any(data > 1)\<close>, and both comparisons are false on NaN: on \<^verbatim>\<open>--start 380 --stop 400
  --interval 10 --data nan 0.5 1\<close> the function returns, although NaN does not lie in the
  interval from 0 to 1 (the range checks of the other validators, written
  \<^verbatim>\<open>not (lo <= x <= hi)\<close>, do reject NaN). On data without NaN it raises \<open>ValueError\<close>
  exactly under the conditions of the claim, and otherwise returns start, stop, interval
  and the data unchanged.
\<close>

theorem validate_spectrum_values_accepts_nan:
  "validate_spectrum_values 380 400 10 [NaN, Finite 0.5, Finite 1]
       = Inr (380, 400, 10, [NaN, Finite 0.5, Finite 1])
   \<and> \<not> within_0_1 NaN
   \<and> spectrum_rejected 380 400 10 [NaN, Finite 0.5, Finite 1]
   \<and> (NaN \<notin> set d \<longrightarrow>
        ((\<exists>msg. validate_spectrum_values s t i d = Inl (ValueError msg))
           = spectrum_rejected s t i d)
        \<and> ((validate_spectrum_values s t i d = Inr (s, t, i, d))
           = (\<not> spectrum_rejected s t i d)))"
proof -
  have a: "\<not> within_0_1 NaN"
    by (simp add: within_0_1_def)
  then have b: "spectrum_rejected 380 400 10 [NaN, Finite 0.5, Finite 1]"
    by (simp add: spectrum_rejected_def)
  have c: "((\<exists>msg. validate_spectrum_values s t i d = Inl (ValueError msg))
           = spectrum_rejected s t i d)
        \<and> ((validate_spectrum_values s t i d = Inr (s, t, i, d))
           = (\<not> spectrum_rejected s t i d))" if "NaN \<notin> set d"
    by (simp add: validate_spectrum_values_without_nan [OF that])
  from a b c validate_spectrum_values_nan show ?thesis
    by blast
qed

theorem validate_spectrum_values_accepts_nan_witness:
  "validate_spectrum_values 380 400 10 [Finite 0, Finite 0.5, Finite 1]
       = Inr (380, 400, 10, [Finite 0, Finite 0.5, Finite 1])
   \<and> validate_spectrum_values 380 400 10 [Finite 0, Finite 0.5]
       = Inl (ValueError ''Data length mismatch. Expected 3 values but got 2 values.'')
   \<and> (\<exists>msg. validate_spectrum_values 380 400 0 [Finite 0, Finite 0.5, Finite 1]
         = Inl (ValueError msg))
   \<and> (\<exists>msg. validate_spectrum_values 380 400 10 [Finite 0, Finite 0.5, Finite 1.5]
         = Inl (ValueError msg))
   \<and> (\<exists>msg. validate_spectrum_values 380 400 10 [Finite 0, Finite 0.5, PosInf]
         = Inl (ValueError msg))
   \<and> validate_spectrum_values 380 400 10 [NaN, Finite 0.5, Finite 1]
       = Inr (380, 400, 10, [NaN, Finite 0.5, Finite 1])"
proof -
  have n: "NaN \<notin> set [Finite 0, Finite 0.5, Finite 1]" "NaN \<notin> set [Finite 0, Finite 0.5]"
    "NaN \<notin> set [Finite 0, Finite 0.5, Finite 1.5]" "NaN \<notin> set [Finite 0, Finite 0.5, PosInf]"
    by simp_all
  have a: "\<not> spectrum_rejected 380 400 10 [Finite 0, Finite 0.5, Finite 1]"
    unfolding spectrum_rejected_def true_divide_20_10 by (simp add: within_0_1_def)
  have b: "validate_spectrum_values 380 400 10 [Finite 0, Finite 0.5]
       = Inl (ValueError ''Data length mismatch. Expected 3 values but got 2 values.'')"
    unfolding validate_spectrum_values_def Let_def true_divide_20_10
    by (simp add: str_int_def decimal.simps digit_def)
  have c: "spectrum_rejected 380 400 0 [Finite 0, Finite 0.5, Finite 1]"
    by (simp add: spectrum_rejected_def)
  have d: "spectrum_rejected 380 400 10 [Finite 0, Finite 0.5, Finite 1.5]"
    by (simp add: spectrum_rejected_def within_0_1_def)
  have e: "spectrum_rejected 380 400 10 [Finite 0, Finite 0.5, PosInf]"
    by (simp add: spectrum_rejected_def within_0_1_def)
  from n a b c d e
    validate_spectrum_values_accepts_nan [of "[Finite 0, Finite 0.5, Finite 1]" 380 400 10]
    validate_spectrum_values_accepts_nan [of "[Finite 0, Finite 0.5, Finite 1]" 380 400 0]
    validate_spectrum_values_accepts_nan [of "[Finite 0, Finite 0.5, Finite 1.5]" 380 400 10]
    validate_spectrum_values_accepts_nan [of "[Finite 0, Finite 0.5, PosInf]" 380 400 10]
  show ?thesis by blast
qed

section \<open>Denormalising a normalised triple\<close>











section \<open>Where a result is stored\<close>

lemma map_of_setitem [simp]: "map_of (setitem d k v) = (map_of d)(k \<mapsto> v)"
  by (simp add: setitem_def update_conv')

lemma dict_zip_strings:
  "dict_zip (map PStr codes) xs d = Inr (fold (\<lambda>(c, x) d. setitem d (KStr c) x) (zip codes xs) d)"
proof (induction codes arbitrary: xs d)
  case Nil
  then show ?case by simp
next
  case (Cons c cs)
  then show ?case by (cases xs) simp_all
qed

lemma iterate_wrapped:
  "iterate (if \<not> is_list_or_ndarray val then PList [val] else val) = Some (components val)"
  by (cases val) (simp_all add: is_list_or_ndarray_def components_def)

lemma pair_codes_strings:
  "map_of t (KStr ''codes'') = Some (PList (map PStr codes)) \<Longrightarrow>
   pair_codes t val = Inr (paired_with_codes codes val)"
  by (simp add: pair_codes_def Let_def iterate_wrapped dict_zip_strings paired_with_codes_def
      del: dict_zip.simps)

lemma pair_codes_none:
  "map_of t (KStr ''codes'') = None \<Longrightarrow> pair_codes t val = Inr val"
  by (simp add: pair_codes_def)

lemma as_dict_Some [simp]: "(as_dict v = Some d) = (v = PDict d)"
  by (cases v) auto

lemma case_dict:
  "(case x of Some (PDict d) \<Rightarrow> f d | _ \<Rightarrow> e)
   = (case Option.bind x as_dict of Some d \<Rightarrow> f d | None \<Rightarrow> e)"
  by (cases x; cases "the x") simp_all

lemma bind_as_dict_Some:
  "(Option.bind x as_dict = Some d) = (x = Some (PDict d))"
  by (cases x; cases "the x") simp_all

lemma store_lookup:
  "store t ill obs ct val = Inr t' \<Longrightarrow>
   lookup (PDict t') (tl (result_path m ill obs ct)) = Some val"
  unfolding store_def result_path_def Let_def contains_def case_dict
  by (auto simp add: bind_as_dict_Some split: if_splits option.splits)

lemma store_total:
  "storable t ill obs ct \<Longrightarrow> \<exists>t'. store t ill obs ct val = Inr t'"
  unfolding store_def storable_def Let_def contains_def free_slot_def sub_dict_def case_dict
  by (auto simp add: bind_as_dict_Some split: if_splits option.splits)

lemma result_store_lookup:
  assumes "result_store m stored ill obs ct res = Inr (res', c)"
  shows "lookup (PDict res') (result_path m ill obs ct) = Some stored"
proof -
  let ?res1 = "if \<not> contains res (KStr m) then setitem res (KStr m) (PDict []) else res"
  from assms obtain t t' where t: "map_of ?res1 (KStr m) = Some (PDict t)"
      "store t ill obs ct stored = Inr t'" "res' = setitem ?res1 (KStr m) (PDict t')"
    unfolding result_store_def Let_def case_dict
    by (auto simp add: bind_as_dict_Some split: option.splits sum.splits)
  have "result_path m ill obs ct = KStr m # tl (result_path m ill obs ct)"
    by (simp add: result_path_def)
  then have "lookup (PDict res') (result_path m ill obs ct)
      = lookup (PDict res') (KStr m # tl (result_path m ill obs ct))"
    by simp
  also have "\<dots> = lookup (PDict t') (tl (result_path m ill obs ct))"
    by (simp add: t(3))
  finally show ?thesis
    using store_lookup [OF t(2)] by simp
qed

lemma result_value_present:
  "result_value m val uss nsn res = Inr stored \<Longrightarrow> \<exists>t. map_of res (KStr m) = Some (PDict t)"
  unfolding result_value_def
  by (auto split: if_splits option.splits pyval.splits)

lemma result_lookup:
  assumes "result m val ill obs ct uss nsn res = Inr res'"
  shows "\<exists>stored. result_value m val uss nsn res = Inr stored
     \<and> lookup (PDict res') (result_path m ill obs ct) = Some stored"
proof -
  from assms obtain stored where s: "result_value m val uss nsn res = Inr stored"
    by (auto simp add: result_def result_traced_def split: sum.splits)
  with assms obtain c where r: "result_store m stored ill obs ct res = Inr (res', c)"
    by (auto simp add: result_def result_traced_def split: sum.splits prod.splits)
  from result_store_lookup [OF r] s show ?thesis by simp
qed

lemma result_store_total:
  assumes "map_of res (KStr m) = Some (PDict t)" and "storable t ill obs ct"
  shows "\<exists>res'. result_store m stored ill obs ct res = Inr (res', False)"
proof -
  from store_total [OF assms(2)] obtain t' where "store t ill obs ct stored = Inr t'" ..
  with assms(1) show ?thesis
    by (simp add: result_store_def Let_def contains_def)
qed

lemma result_total:
  assumes "map_of res (KStr m) = Some (PDict t)" and "storable t ill obs ct"
    and "pair_codes t val = Inr stored"
  shows "\<exists>res'. result m val ill obs ct False nsn res = Inr res'"
proof -
  from result_store_total [OF assms(1,2)] obtain res'
    where "result_store m stored ill obs ct res = Inr (res', False)" ..
  with assms(1,3) show ?thesis
    by (simp add: result_def result_traced_def result_value_def)
qed

text \<open>
  Claim C3. A call of \<^verbatim>\<open>result(model, value, illuminant, observer, cat)\<close> that returns has
  stored its value under \<^verbatim>\<open>res[model][observer][illuminant][cat]\<close> when an observer is given
  and \<^verbatim>\<open>cat\<close> is not \<^verbatim>\<open>None\<close>, under \<^verbatim>\<open>res[model][observer][illuminant]\<close> when an observer is
  given and \<^verbatim>\<open>cat\<close> is \<^verbatim>\<open>None\<close>, under \<^verbatim>\<open>res[model][illuminant][cat]\<close> or
  \<^verbatim>\<open>res[model][illuminant]\<close> when only an illuminant is given, and under
  \<^verbatim>\<open>res[model]["None"]\<close> when neither is given. The value stored is the dictionary pairing
  the codes with the components of the value when the template of the model has a list
  of codes, and the value itself when the template has no codes. The call does return
  when the model has a template and the slots on the way are absent or hold
  dictionaries.
\<close>

theorem result_stores_at_path:
  "(result m val ill obs ct uss nsn res = Inr res' \<longrightarrow>
      (\<exists>stored. result_value m val uss nsn res = Inr stored
         \<and> lookup (PDict res') (result_path m ill obs ct) = Some stored))
   \<and> (map_of res (KStr m) = Some (PDict t) \<longrightarrow>
        (map_of t (KStr ''codes'') = Some (PList (map PStr codes)) \<longrightarrow>
           result_value m val False nsn res = Inr (paired_with_codes codes val))
        \<and> (map_of t (KStr ''codes'') = None \<longrightarrow> result_value m val False nsn res = Inr val)
        \<and> (storable t ill obs ct
             \<and> (map_of t (KStr ''codes'') = None
                 \<or> map_of t (KStr ''codes'') = Some (PList (map PStr codes))) \<longrightarrow>
             (\<exists>res1. result m val ill obs ct False nsn res = Inr res1)))"
proof (intro conjI impI)
  assume "result m val ill obs ct uss nsn res = Inr res'"
  then show "\<exists>stored. result_value m val uss nsn res = Inr stored
         \<and> lookup (PDict res') (result_path m ill obs ct) = Some stored"
    by (rule result_lookup)
next
  assume "map_of res (KStr m) = Some (PDict t)"
    and "map_of t (KStr ''codes'') = Some (PList (map PStr codes))"
  then show "result_value m val False nsn res = Inr (paired_with_codes codes val)"
    by (simp add: result_value_def pair_codes_strings)
next
  assume "map_of res (KStr m) = Some (PDict t)" and "map_of t (KStr ''codes'') = None"
  then show "result_value m val False nsn res = Inr val"
    by (simp add: result_value_def pair_codes_none)
next
  assume r: "map_of res (KStr m) = Some (PDict t)"
    and s: "storable t ill obs ct
             \<and> (map_of t (KStr ''codes'') = None
                 \<or> map_of t (KStr ''codes'') = Some (PList (map PStr codes)))"
  then have "\<exists>stored. pair_codes t val = Inr stored"
    using pair_codes_none pair_codes_strings by blast
  then obtain stored where "pair_codes t val = Inr stored" ..
  with r s show "\<exists>res1. result m val ill obs ct False nsn res = Inr res1"
    using result_total by blast
qed

theorem result_stores_at_path_witness:
  "result ''cielab'' (NdArray [PFloat 50, PFloat 1, PFloat 2])
      (AStr ''D65'') (AStr ''CIE 1931 2 Degree Standard Observer'') (Some ''Bradford'')
      False False res_example
    = Inr [(KStr ''cielab'', PDict [(KStr ''name'', PStr ''CIELAB''),
             (KStr ''codes'', PList [PStr ''L'', PStr ''a'', PStr ''b'']),
             (KStr ''CIE 1931 2 Degree Standard Observer'',
               PDict [(KStr ''D65'', PDict [(KStr ''Bradford'',
                 PDict [(KStr ''L'', PFloat 50), (KStr ''a'', PFloat 1),
                        (KStr ''b'', PFloat 2)])])])]),
           (KStr ''pointer'', PDict [(KStr ''name'', PStr ''Pointer's Gamut'')])]
   \<and> lookup (PDict [(KStr ''cielab'', PDict [(KStr ''name'', PStr ''CIELAB''),
             (KStr ''codes'', PList [PStr ''L'', PStr ''a'', PStr ''b'']),
             (KStr ''CIE 1931 2 Degree Standard Observer'',
               PDict [(KStr ''D65'', PDict [(KStr ''Bradford'',
                 PDict [(KStr ''L'', PFloat 50), (KStr ''a'', PFloat 1),
                        (KStr ''b'', PFloat 2)])])])]),
           (KStr ''pointer'', PDict [(KStr ''name'', PStr ''Pointer's Gamut'')])])
       [KStr ''cielab'', KStr ''CIE 1931 2 Degree Standard Observer'', KStr ''D65'',
        KStr ''Bradford'']
     = Some (PDict [(KStr ''L'', PFloat 50), (KStr ''a'', PFloat 1), (KStr ''b'', PFloat 2)])
   \<and> (\<exists>res1. result ''pointer'' (PStr ''True'') AFalse AFalse None False False res_example
         = Inr res1
       \<and> lookup (PDict res1) [KStr ''pointer'', KStr ''None''] = Some (PStr ''True''))"
proof -
  let ?obs = "AStr ''CIE 1931 2 Degree Standard Observer''"
  let ?val = "NdArray [PFloat 50, PFloat 1, PFloat 2]"
  let ?t = "[(KStr ''name'', PStr ''CIELAB''),
             (KStr ''codes'', PList [PStr ''L'', PStr ''a'', PStr ''b''])]"
  let ?p = "[(KStr ''name'', PStr ''Pointer's Gamut'')]"
  have a: "result ''cielab'' ?val (AStr ''D65'') ?obs (Some ''Bradford'') False False res_example
    = Inr [(KStr ''cielab'', PDict [(KStr ''name'', PStr ''CIELAB''),
             (KStr ''codes'', PList [PStr ''L'', PStr ''a'', PStr ''b'']),
             (KStr ''CIE 1931 2 Degree Standard Observer'',
               PDict [(KStr ''D65'', PDict [(KStr ''Bradford'',
                 PDict [(KStr ''L'', PFloat 50), (KStr ''a'', PFloat 1),
                        (KStr ''b'', PFloat 2)])])])]),
           (KStr ''pointer'', PDict [(KStr ''name'', PStr ''Pointer's Gamut'')])]"
    by (simp add: result_def result_traced_def result_value_def result_store_def store_def
        pair_codes_def res_example_def Let_def contains_def setitem_def is_list_or_ndarray_def)
  have b: "map_of res_example (KStr ''pointer'') = Some (PDict ?p)"
    "map_of ?p (KStr ''codes'') = None" "storable ?p AFalse AFalse None"
    by (simp_all add: res_example_def storable_def)
  from b result_stores_at_path [of "''pointer''" "PStr ''True''" AFalse AFalse None False False
      res_example _ ?p "[]"]
  obtain res1 where c:
    "result ''pointer'' (PStr ''True'') AFalse AFalse None False False res_example = Inr res1"
    "result_value ''pointer'' (PStr ''True'') False False res_example = Inr (PStr ''True'')"
    by auto
  from c result_stores_at_path [of "''pointer''" "PStr ''True''" AFalse AFalse None False False
      res_example res1 ?p "[]"]
  have d: "lookup (PDict res1) (result_path ''pointer'' AFalse AFalse None) = Some (PStr ''True'')"
    by auto
  have e: "result_path ''pointer'' AFalse AFalse None = [KStr ''pointer'', KStr ''None'']"
    by (simp add: result_path_def)
  from a c d e show ?thesis
    by simp
qed

section \<open>A model without a template\<close>

lemma result_traced_never_creates:
  assumes "result_traced m val ill obs ct uss nsn res = Inr (res', created)"
  shows "\<not> created"
proof -
  from assms obtain stored where s: "result_value m val uss nsn res = Inr stored"
    and r: "result_store m stored ill obs ct res = Inr (res', created)"
    by (auto simp add: result_traced_def split: sum.splits)
  from result_value_present [OF s] obtain t where "map_of res (KStr m) = Some (PDict t)" ..
  with r show ?thesis
    unfolding result_store_def Let_def contains_def case_dict
    by (auto simp add: bind_as_dict_Some split: option.splits sum.splits)
qed

text \<open>
  Claim C9. A call of \<^verbatim>\<open>result\<close> with a model that is not a key of \<^verbatim>\<open>res\<close> raises
  \<open>KeyError\<close>: the lookup \<^verbatim>\<open>res[model]\<close> for the codes comes before the guard
  \<^verbatim>\<open>model not in res\<close>. The calls are those the program makes, which all leave
  \<^verbatim>\<open>use_space_separated\<close> at its default \<^verbatim>\<open>False\<close>. In no call whatever is the branch of
  that guard taken, though from a state without the model the second half of the
  function, run alone, takes it.
\<close>

theorem result_absent_model_raises:
  "(map_of res (KStr m) = None \<longrightarrow> result m val ill obs ct False nsn res = Inl KeyError)
   \<and> (result_traced m val ill obs ct uss nsn res = Inr (res', created) \<longrightarrow> \<not> created)
   \<and> (map_of res (KStr m) = None \<longrightarrow>
        (\<exists>res1. result_store m val AFalse AFalse None res = Inr (res1, True)))"
proof (intro conjI impI)
  assume "map_of res (KStr m) = None"
  then show "result m val ill obs ct False nsn res = Inl KeyError"
    by (simp add: result_def result_traced_def result_value_def)
next
  assume "result_traced m val ill obs ct uss nsn res = Inr (res', created)"
  then show "\<not> created" by (rule result_traced_never_creates)
next
  assume "map_of res (KStr m) = None"
  then show "\<exists>res1. result_store m val AFalse AFalse None res = Inr (res1, True)"
    by (simp add: result_store_def Let_def contains_def store_def)
qed

theorem result_absent_model_witness:
  "map_of res_example (KStr ''munsell'') = None
   \<and> result ''munsell'' (PStr ''N5'') (AStr ''D65'') (AStr ''CIE 1931 2 Degree Standard Observer'')
       (Some ''Bradford'') False False res_example = Inl KeyError
   \<and> (\<exists>res1. result_traced ''pointer'' (PStr ''True'') AFalse AFalse None False False res_example
        = Inr (res1, False))"
proof -
  have h: "map_of res_example (KStr ''munsell'') = None"
    by (simp add: res_example_def)
  have t: "\<exists>res1. result_traced ''pointer'' (PStr ''True'') AFalse AFalse None False False
      res_example = Inr (res1, False)"
    by (simp add: result_traced_def result_value_def result_store_def store_def pair_codes_def
        res_example_def Let_def contains_def)
  from h result_absent_model_raises [of res_example "''munsell''" "PStr ''N5''" "AStr ''D65''"
      "AStr ''CIE 1931 2 Degree Standard Observer''" "Some ''Bradford''" False False]
  have "result ''munsell'' (PStr ''N5'') (AStr ''D65'') (AStr ''CIE 1931 2 Degree Standard Observer'')
       (Some ''Bradford'') False False res_example = Inl KeyError"
    by blast
  with h t show ?thesis by blast
qed

section \<open>One JSON document\<close>

lemma main_from_fan_out_output:
  assumes "main_from_fan_out lib g il input_ill res = Inr (res', out)"
  shows "\<exists>dumped. out = [dumped] \<and> json_encode (PDict res') = Inr dumped"
  using assms
  by (auto simp add: main_from_fan_out_def split: sum.splits)

lemma main_from_fan_out_res:
  assumes "main_from_fan_out lib g il input_ill res = Inr (res', out)"
  shows "\<exists>res1. fan_out lib g il res = Inr res1
     \<and> spectral_recovery lib g input_ill (ciexyz_d65_after_fan_out lib g il) res1 = Inr res'"
  using assms
  by (auto simp add: main_from_fan_out_def split: sum.splits)

text \<open>
  Claim C8. A run that succeeds has written exactly one JSON document to standard output:
  the encoding of the result dictionary as the fan-out and the spectral recovery left it,
  in which a NumPy integer is encoded as the Python \<^verbatim>\<open>int\<close>, a NumPy float as the Python
  \<^verbatim>\<open>float\<close>, and a NumPy array as the list \<^verbatim>\<open>tolist()\<close> gives.
\<close>

theorem main_writes_one_json_document:
  "(main_from_fan_out lib g il input_ill res = Inr (res', out) \<longrightarrow>
      (\<exists>dumped. out = [dumped] \<and> json_encode (PDict res') = Inr dumped)
      \<and> (\<exists>res1. fan_out lib g il res = Inr res1
            \<and> spectral_recovery lib g input_ill (ciexyz_d65_after_fan_out lib g il) res1
                = Inr res'))
   \<and> json_encode (NpInt i) = json_encode (PInt i) \<and> json_encode (NpInt i) = Inr (JInt i)
   \<and> json_encode (NpFloat x) = json_encode (PFloat x) \<and> json_encode (NpFloat x) = Inr (JFloat x)
   \<and> json_encode (NdArray xs) = json_encode (PList (map tolist_item xs))"
  using main_from_fan_out_output [of lib g il input_ill res res' out]
    main_from_fan_out_res [of lib g il input_ill res res' out]
  by (simp add: NumpyEncoder_default_def)

theorem main_writes_one_json_document_witness:
  "main_from_fan_out library_example (globals_example\<lparr>model := Spectrum\<rparr>) ''ISO_7589'' ''D65''
      [(KStr ''cct'', PDict [(KStr ''name'', PStr ''CCT''), (KStr ''None'', NpFloat 6504),
         (KStr ''D65'', NdArray [NpInt 1, NdArray [PFloat 0.5]])])]
    = Inr ([(KStr ''cct'', PDict [(KStr ''name'', PStr ''CCT''), (KStr ''None'', NpFloat 6504),
              (KStr ''D65'', NdArray [NpInt 1, NdArray [PFloat 0.5]])])],
           [JObj [(KStr ''cct'', JObj [(KStr ''name'', JStr ''CCT''), (KStr ''None'', JFloat 6504),
              (KStr ''D65'', JArr [JInt 1, JArr [JFloat 0.5]])])]])"
proof -
  let ?res = "[(KStr ''cct'', PDict [(KStr ''name'', PStr ''CCT''), (KStr ''None'', NpFloat 6504),
         (KStr ''D65'', NdArray [NpInt 1, NdArray [PFloat 0.5]])])]"
  let ?g = "globals_example\<lparr>model := Spectrum\<rparr>"
  have f: "fan_out library_example ?g ''ISO_7589'' ?res = Inr ?res"
    by (simp add: fan_out_def STANDARD_OBSERVERS_def ISO_7589_ILLUMINANTS_LIST_def
        convert_with_xyz_def library_example_def globals_example_def)
  have s: "spectral_recovery library_example ?g ''D65''
      (ciexyz_d65_after_fan_out library_example ?g ''ISO_7589'') ?res = Inr ?res"
    by (simp add: spectral_recovery_def)
  have j: "json_encode (PDict ?res)
      = Inr (JObj [(KStr ''cct'', JObj [(KStr ''name'', JStr ''CCT''), (KStr ''None'', JFloat 6504),
              (KStr ''D65'', JArr [JInt 1, JArr [JFloat 0.5]])])])"
    by (simp add: NumpyEncoder_default_def)
  from f s j have m: "main_from_fan_out library_example ?g ''ISO_7589'' ''D65'' ?res
      = Inr (?res, [JObj [(KStr ''cct'', JObj [(KStr ''name'', JStr ''CCT''),
              (KStr ''None'', JFloat 6504),
              (KStr ''D65'', JArr [JInt 1, JArr [JFloat 0.5]])])]])"
    by (simp add: main_from_fan_out_def)
  from m main_writes_one_json_document [of library_example ?g "''ISO_7589''" "''D65''" ?res ?res
      "[JObj [(KStr ''cct'', JObj [(KStr ''name'', JStr ''CCT''),
              (KStr ''None'', JFloat 6504),
              (KStr ''D65'', JArr [JInt 1, JArr [JFloat 0.5]])])]]"]
  show ?thesis by simp
qed

end
